theory Spec2Isabelle
  imports Main "HOL-Library.Word" "HOL-Library.Char_ord" "HOL-Library.List_Lexorder"
begin

section \<open>go-mapbox: the geocoding client (package geocode) and its base client\<close>

text \<open>
  The geocoding module builds a \<open>url.Values\<close> from an options struct, hands it to the
  base client's HTTP helpers and returns what they decoded. The embedding follows the
  source function by function. What the source calls and does not define:
  \<^item> the base client (\<open>base.NewBase\<close>, \<open>QueryBase\<close>, \<open>QueryWithBodyBase\<close>), whose file is
    not among the sources: the two HTTP helpers are parameters of the model, threaded
    through an explicit world state \<open>'w\<close>;
  \<^item> \<open>query.Values\<close> of the go-querystring dependency, which is modelled for the field
    kinds the option structs have (string, bool, uint), driven by the \<open>url:"..."\<close> tags
    that the source writes on every field;
  \<^item> \<open>Encode\<close> and \<open>ParseQuery\<close> of Go's package net/url, modelled with their escaping,
    for the query string of a \<open>url.Values\<close> and for parsing it back;
  \<^item> the formatting of a \<open>float64\<close> (\<open>fmt.Sprintf("%f")\<close>, \<open>strconv.FormatFloat\<close>), which
    is a parameter of the model: \<open>float64\<close> is the type variable \<open>'f\<close>. Where a statement
    is about the digits of \<open>%f\<close>, the floats and the verb are modelled.
\<close>

subsection \<open>Errors (lib/base/errors.go)\<close>

text \<open>
  \<open>ErrorAPIUnauthorized\<close> and \<open>ErrorAPILimitExceeded\<close> are the two error values of
  errors.go. \<open>Error s\<close> is any other error value with message \<open>s\<close> (\<open>errors.New\<close>,
  \<open>fmt.Errorf\<close>). \<open>ErrorMissingToken\<close> is the missing-token error kind of the
  specification's error handling section; errors.go does not declare it.
\<close>

datatype error =
    ErrorAPIUnauthorized
  | ErrorAPILimitExceeded
  | ErrorMissingToken
  | Error string

subsection \<open>url.Values and the go-querystring encoder\<close>

text \<open>
  \<open>url.Values\<close> is \<open>map[string][]string\<close>: the parsed form of a query string, a key
  that is absent from the map is a parameter that is absent from the query string.
\<close>

type_synonym Values = "string \<rightharpoonup> string list"

definition Add :: "Values \<Rightarrow> string \<Rightarrow> string \<Rightarrow> Values" where
  "Add v key val = v(key \<mapsto> (case v key of None \<Rightarrow> [val] | Some vs \<Rightarrow> vs @ [val]))"

definition Set_value :: "Values \<Rightarrow> string \<Rightarrow> string \<Rightarrow> Values" where
  "Set_value v key val = v(key \<mapsto> [val])"

text \<open>Decimal digits of an unsigned integer, as \<open>fmt.Sprint\<close> prints a \<open>uint\<close>.\<close>

definition digit :: "nat \<Rightarrow> char" where
  "digit n = ''0123456789'' ! n"

function FormatUint :: "nat \<Rightarrow> string" where
  "FormatUint n = (if n < 10 then [digit n] else FormatUint (n div 10) @ [digit (n mod 10)])"
  by pat_completeness auto
termination
  by (relation "measure id") auto

text \<open>
  A struct field as the encoder's reflection sees it: the name and the \<open>omitempty\<close> option
  of its \<open>url\<close> tag, and its value. Go's \<open>uint\<close> is 64 bits wide on the 64-bit platforms.
\<close>

datatype fieldval = VString string | VBool bool | VUint "64 word"

type_synonym field = "string \<times> bool \<times> fieldval"

fun isEmptyValue :: "fieldval \<Rightarrow> bool" where
  "isEmptyValue (VString s) = (length s = 0)"
| "isEmptyValue (VBool b) = (\<not> b)"
| "isEmptyValue (VUint n) = (n = 0)"

fun valueString :: "fieldval \<Rightarrow> string" where
  "valueString (VString s) = s"
| "valueString (VBool b) = (if b then ''true'' else ''false'')"
| "valueString (VUint n) = FormatUint (unat n)"

text \<open>
  \<open>reflectValue\<close>: the loop over the struct's fields, in declaration order. A field tagged
  \<open>omitempty\<close> whose value is empty is skipped; every other field is added under its name.
\<close>

fun reflectValue :: "Values \<Rightarrow> field list \<Rightarrow> Values" where
  "reflectValue values [] = values"
| "reflectValue values ((name, omitempty, sv) # fs) =
     (if omitempty \<and> isEmptyValue sv then reflectValue values fs
      else reflectValue (Add values name (valueString sv)) fs)"

text \<open>
  The argument of \<open>query.Values\<close>: pointers are followed, a nil pointer gives the empty
  \<open>url.Values\<close> and no error, a value that is not a struct gives an error.
\<close>

datatype go_value = NilPtr | PtrTo go_value | Struct "field list" | NotStruct string

fun query_Values :: "go_value \<Rightarrow> error + Values" where
  "query_Values NilPtr = Inr Map.empty"
| "query_Values (PtrTo v) = query_Values v"
| "query_Values (NotStruct kind) =
     Inl (Error (''query: Values() expects struct input. Got '' @ kind))"
| "query_Values (Struct fs) = Inr (reflectValue Map.empty fs)"

subsection \<open>The data model (package geocode, package base)\<close>

text \<open>The request option structs, with the fields in the order of the source.\<close>

record ForwardRequestOpts =
  Country :: string
  Proximity :: string
  Types :: string
  Autocomplete :: bool
  BBox :: string
  Limit :: "64 word"
  Language :: string
  Worldview :: string
  Format :: string
  Permanent :: bool

record StructuredInputOpts =
  AddressLine1 :: string
  AddressNumber :: string
  Street :: string
  Block :: string
  Place :: string
  Region :: string
  Postcode :: string
  Locality :: string
  Neighborhood :: string
  Country :: string
  Autocomplete :: bool
  BBox :: string
  Format :: string
  Language :: string
  Limit :: "64 word"
  Proximity :: string
  Types :: string
  Worldview :: string
  Permanent :: bool

record ReverseRequestOpts =
  Types :: string
  Limit :: "64 word"
  Country :: string
  Language :: string
  Worldview :: string
  Permanent :: bool

record BatchRequestOpts =
  Permanent :: bool

text \<open>
  A query of a batch request: it is the JSON body, the geocoding module only passes it on.
  \<open>Limit\<close> is an \<open>int\<close> here, 64 bits wide like \<open>uint\<close>.
\<close>

record 'f BatchQuery =
  Q :: string
  Types :: string
  BBox :: string
  Limit :: "64 word"
  Country :: string
  Language :: string
  AddressLine1 :: string
  AddressNumber :: string
  Street :: string
  Block :: string
  Place :: string
  Region :: string
  Postcode :: string
  Locality :: string
  Neighborhood :: string
  Longitude :: 'f
  Latitude :: 'f
  Autocomplete :: bool
  Proximity :: string
  Worldview :: string
  Format :: string

text \<open>
  \<open>base.Location\<close>, \<open>base.BoundingBox\<close> and \<open>base.FeatureCollection\<close> are used by the
  source as follows: a location has a longitude and a latitude, a bounding box is a
  sequence of floats with a length, a feature collection has a type tag and a sequence of
  features. The features themselves are the type variable \<open>'feat\<close>.
\<close>

record 'f Location =
  Longitude :: 'f
  Latitude :: 'f

type_synonym 'f BoundingBox = "'f list"

record 'feat FeatureCollection =
  Type :: string
  Features :: "'feat list"

record 'feat ForwardResponse =
  FeatureCollection :: "'feat FeatureCollection option"

record 'feat ReverseResponse =
  FeatureCollection :: "'feat FeatureCollection option"

record 'feat BatchResponse =
  Batch :: "'feat FeatureCollection list"

text \<open>The zero values of the option structs (\<open>&ForwardRequestOpts{}\<close> and so on).\<close>

definition zero_ForwardRequestOpts :: ForwardRequestOpts where
  "zero_ForwardRequestOpts =
     \<lparr> ForwardRequestOpts.Country = '''', ForwardRequestOpts.Proximity = '''',
       ForwardRequestOpts.Types = '''', ForwardRequestOpts.Autocomplete = False,
       ForwardRequestOpts.BBox = '''', ForwardRequestOpts.Limit = 0,
       ForwardRequestOpts.Language = '''', ForwardRequestOpts.Worldview = '''',
       ForwardRequestOpts.Format = '''', ForwardRequestOpts.Permanent = False \<rparr>"

definition zero_ReverseRequestOpts :: ReverseRequestOpts where
  "zero_ReverseRequestOpts =
     \<lparr> ReverseRequestOpts.Types = '''', ReverseRequestOpts.Limit = 0,
       ReverseRequestOpts.Country = '''', ReverseRequestOpts.Language = '''',
       ReverseRequestOpts.Worldview = '''', ReverseRequestOpts.Permanent = False \<rparr>"

definition zero_BatchRequestOpts :: BatchRequestOpts where
  "zero_BatchRequestOpts = \<lparr> BatchRequestOpts.Permanent = False \<rparr>"

definition zero_StructuredInputOpts :: StructuredInputOpts where
  "zero_StructuredInputOpts =
     \<lparr> StructuredInputOpts.AddressLine1 = '''', StructuredInputOpts.AddressNumber = '''',
       StructuredInputOpts.Street = '''', StructuredInputOpts.Block = '''',
       StructuredInputOpts.Place = '''', StructuredInputOpts.Region = '''',
       StructuredInputOpts.Postcode = '''', StructuredInputOpts.Locality = '''',
       StructuredInputOpts.Neighborhood = '''', StructuredInputOpts.Country = '''',
       StructuredInputOpts.Autocomplete = False, StructuredInputOpts.BBox = '''',
       StructuredInputOpts.Format = '''', StructuredInputOpts.Language = '''',
       StructuredInputOpts.Limit = 0, StructuredInputOpts.Proximity = '''',
       StructuredInputOpts.Types = '''', StructuredInputOpts.Worldview = '''',
       StructuredInputOpts.Permanent = False \<rparr>"

text \<open>
  The option structs as the encoder's reflection sees them: one entry per field, with the
  name and the \<open>omitempty\<close> option that the field's \<open>url\<close> tag gives.
\<close>

definition ForwardRequestOpts_fields :: "ForwardRequestOpts \<Rightarrow> field list" where
  "ForwardRequestOpts_fields r =
     [ (''country'', True, VString (ForwardRequestOpts.Country r)),
       (''proximity'', True, VString (ForwardRequestOpts.Proximity r)),
       (''types'', True, VString (ForwardRequestOpts.Types r)),
       (''autocomplete'', True, VBool (ForwardRequestOpts.Autocomplete r)),
       (''bbox'', True, VString (ForwardRequestOpts.BBox r)),
       (''limit'', True, VUint (ForwardRequestOpts.Limit r)),
       (''language'', True, VString (ForwardRequestOpts.Language r)),
       (''worldview'', True, VString (ForwardRequestOpts.Worldview r)),
       (''format'', True, VString (ForwardRequestOpts.Format r)),
       (''permanent'', True, VBool (ForwardRequestOpts.Permanent r)) ]"

definition StructuredInputOpts_fields :: "StructuredInputOpts \<Rightarrow> field list" where
  "StructuredInputOpts_fields r =
     [ (''address_line1'', True, VString (StructuredInputOpts.AddressLine1 r)),
       (''address_number'', True, VString (StructuredInputOpts.AddressNumber r)),
       (''street'', True, VString (StructuredInputOpts.Street r)),
       (''block'', True, VString (StructuredInputOpts.Block r)),
       (''place'', True, VString (StructuredInputOpts.Place r)),
       (''region'', True, VString (StructuredInputOpts.Region r)),
       (''postcode'', True, VString (StructuredInputOpts.Postcode r)),
       (''locality'', True, VString (StructuredInputOpts.Locality r)),
       (''neighborhood'', True, VString (StructuredInputOpts.Neighborhood r)),
       (''country'', True, VString (StructuredInputOpts.Country r)),
       (''autocomplete'', True, VBool (StructuredInputOpts.Autocomplete r)),
       (''bbox'', True, VString (StructuredInputOpts.BBox r)),
       (''format'', True, VString (StructuredInputOpts.Format r)),
       (''language'', True, VString (StructuredInputOpts.Language r)),
       (''limit'', True, VUint (StructuredInputOpts.Limit r)),
       (''proximity'', True, VString (StructuredInputOpts.Proximity r)),
       (''types'', True, VString (StructuredInputOpts.Types r)),
       (''worldview'', True, VString (StructuredInputOpts.Worldview r)),
       (''permanent'', True, VBool (StructuredInputOpts.Permanent r)) ]"

definition ReverseRequestOpts_fields :: "ReverseRequestOpts \<Rightarrow> field list" where
  "ReverseRequestOpts_fields r =
     [ (''types'', True, VString (ReverseRequestOpts.Types r)),
       (''limit'', True, VUint (ReverseRequestOpts.Limit r)),
       (''country'', True, VString (ReverseRequestOpts.Country r)),
       (''language'', True, VString (ReverseRequestOpts.Language r)),
       (''worldview'', True, VString (ReverseRequestOpts.Worldview r)),
       (''permanent'', True, VBool (ReverseRequestOpts.Permanent r)) ]"

definition BatchRequestOpts_fields :: "BatchRequestOpts \<Rightarrow> field list" where
  "BatchRequestOpts_fields r =
     [ (''permanent'', True, VBool (BatchRequestOpts.Permanent r)) ]"

text \<open>The result-type constants. \<open>Type\<close> is a string type: any string converts to it.\<close>

type_synonym Type = string

definition Country :: Type where "Country = ''country''"
definition Region :: Type where "Region = ''region''"
definition Postcode :: Type where "Postcode = ''postcode''"
definition District :: Type where "District = ''district''"
definition Place :: Type where "Place = ''place''"
definition Locality :: Type where "Locality = ''locality''"
definition Neighborhood :: Type where "Neighborhood = ''neighborhood''"
definition Street :: Type where "Street = ''street''"
definition Block :: Type where "Block = ''block''"
definition Address :: Type where "Address = ''address''"
definition SecondaryAddress :: Type where "SecondaryAddress = ''secondary_address''"

definition apiName :: string where "apiName = ''search''"
definition apiVersion :: string where "apiVersion = ''geocode/v6''"

subsection \<open>The base client\<close>

text \<open>
  Modelled from the spec: \<open>base.NewBase\<close>, the \<open>Base\<close> struct and the error value
  \<open>ErrorMissingToken\<close>; the base client's file is not among the sources. The
  specification's contract is
  \<open>new(token) -> Client | fails if token empty\<close>: the client holds the API token, and an
  empty token is the missing-token error, a local precondition failure before any
  network call. \<open>NewBase\<close> is given the world state and returns it untouched.
\<close>

record Base =
  token :: string

definition NewBase :: "string \<Rightarrow> 'w \<Rightarrow> (error + Base) \<times> 'w" where
  "NewBase tok w =
     (if tok = '''' then (Inl ErrorMissingToken, w) else (Inr \<lparr> token = tok \<rparr>, w))"

record Geocode =
  base :: Base

definition NewGeocode :: "Base \<Rightarrow> Geocode" where
  "NewGeocode b = \<lparr> base = b \<rparr>"

text \<open>
  What the geocoding module calls and does not define. \<open>QueryBase path v inst\<close> and
  \<open>QueryWithBodyBase path v body inst\<close> are the base client's HTTP helpers: each takes
  the world state, and gives the value decoded into \<open>inst\<close> (which the caller passes zero
  valued), the error, and the new world state. \<open>Sprintf_f x\<close> is \<open>fmt.Sprintf("%f", x)\<close>
  and \<open>FormatFloat x\<close> is \<open>strconv.FormatFloat(x, 'f', -1, 64)\<close>.
\<close>

record ('f, 'feat, 'w) deps =
  QueryBase :: "Base \<Rightarrow> string \<Rightarrow> Values \<Rightarrow> 'w
                  \<Rightarrow> ('feat FeatureCollection option \<times> error option) \<times> 'w"
  QueryWithBodyBase :: "Base \<Rightarrow> string \<Rightarrow> Values \<Rightarrow> 'f BatchQuery list \<Rightarrow> 'w
                  \<Rightarrow> ('feat FeatureCollection list \<times> error option) \<times> 'w"
  Sprintf_f :: "'f \<Rightarrow> string"
  FormatFloat :: "'f \<Rightarrow> string"

text \<open>
  What a call gives back: it panics (a nil pointer is dereferenced), or it returns a
  pointer (nil is \<open>None\<close>) and an error (nil is \<open>None\<close>).
\<close>

datatype 'r returned = Panic | Return "'r option" "error option"

subsection \<open>The example program's start (func main)\<close>

datatype started = Fatal string | Started Geocode

definition main_start :: "string \<Rightarrow> 'w \<Rightarrow> started \<times> 'w" where
  "main_start tok w =
     (if tok = '''' then (Fatal ''MAPBOX_TOKEN environment variable is required'', w)
      else (case NewBase tok w of
              (Inl err, w') \<Rightarrow> (Fatal ''Failed to create base client:'', w')
            | (Inr b, w') \<Rightarrow> (Started (NewGeocode b), w')))"

subsection \<open>Forward, ForwardStructured, Reverse, Batch\<close>

text \<open>
  \<open>Forward_values\<close> is the first half of \<open>Forward\<close>: the \<open>url.Values\<close> built before the
  HTTP call (the nil check, \<open>query.Values\<close>, \<open>v.Set("q", place)\<close>). \<open>Forward\<close> is the whole
  function.
\<close>

definition Forward_values :: "string \<Rightarrow> ForwardRequestOpts option \<Rightarrow> error + Values" where
  "Forward_values place req =
     (let req = (case req of None \<Rightarrow> zero_ForwardRequestOpts | Some r \<Rightarrow> r) in
      case query_Values (PtrTo (Struct (ForwardRequestOpts_fields req))) of
        Inl err \<Rightarrow> Inl err
      | Inr v \<Rightarrow> Inr (Set_value v ''q'' place))"

definition Forward :: "('f, 'feat, 'w) deps \<Rightarrow> Geocode \<Rightarrow> string \<Rightarrow> ForwardRequestOpts option
    \<Rightarrow> 'w \<Rightarrow> 'feat ForwardResponse returned \<times> 'w" where
  "Forward D g place req w =
     (case Forward_values place req of
        Inl err \<Rightarrow> (Return None (Some err), w)
      | Inr v \<Rightarrow>
          (case QueryBase D (base g) (apiName @ ''/'' @ apiVersion @ ''/forward'') v w of
             ((fc, err), w') \<Rightarrow>
               (Return (Some \<lparr> ForwardResponse.FeatureCollection = fc \<rparr>) err, w')))"

text \<open>\<open>ForwardStructured\<close> has no nil check: the pointer goes to \<open>query.Values\<close> as it is.\<close>

definition ForwardStructured_values :: "StructuredInputOpts option \<Rightarrow> error + Values" where
  "ForwardStructured_values req =
     query_Values (case req of None \<Rightarrow> NilPtr
                   | Some r \<Rightarrow> PtrTo (Struct (StructuredInputOpts_fields r)))"

definition ForwardStructured :: "('f, 'feat, 'w) deps \<Rightarrow> Geocode \<Rightarrow> StructuredInputOpts option
    \<Rightarrow> 'w \<Rightarrow> 'feat ForwardResponse returned \<times> 'w" where
  "ForwardStructured D g req w =
     (case ForwardStructured_values req of
        Inl err \<Rightarrow> (Return None (Some err), w)
      | Inr v \<Rightarrow>
          (case QueryBase D (base g) (apiName @ ''/'' @ apiVersion @ ''/forward'') v w of
             ((fc, err), w') \<Rightarrow>
               (Return (Some \<lparr> ForwardResponse.FeatureCollection = fc \<rparr>) err, w')))"

text \<open>
  \<open>Reverse\<close> reads \<open>loc.Longitude\<close> after \<open>query.Values\<close> has returned: a nil \<open>loc\<close> panics
  there, before any HTTP call. \<open>Reverse_values\<close> is the first half of \<open>Reverse\<close>, with
  \<open>None\<close> for the panic.
\<close>

definition Reverse_values :: "('f, 'feat, 'w) deps \<Rightarrow> 'f Location option
    \<Rightarrow> ReverseRequestOpts option \<Rightarrow> (error + Values) option" where
  "Reverse_values D loc req =
     (let req = (case req of None \<Rightarrow> zero_ReverseRequestOpts | Some r \<Rightarrow> r) in
      case query_Values (PtrTo (Struct (ReverseRequestOpts_fields req))) of
        Inl err \<Rightarrow> Some (Inl err)
      | Inr v \<Rightarrow>
          (case loc of
             None \<Rightarrow> None
           | Some l \<Rightarrow>
               Some (Inr (Set_value
                            (Set_value v ''longitude'' (FormatFloat D (Location.Longitude l)))
                            ''latitude'' (FormatFloat D (Location.Latitude l))))))"

definition Reverse :: "('f, 'feat, 'w) deps \<Rightarrow> Geocode \<Rightarrow> 'f Location option
    \<Rightarrow> ReverseRequestOpts option \<Rightarrow> 'w \<Rightarrow> 'feat ReverseResponse returned \<times> 'w" where
  "Reverse D g loc req w =
     (case Reverse_values D loc req of
        None \<Rightarrow> (Panic, w)
      | Some (Inl err) \<Rightarrow> (Return None (Some err), w)
      | Some (Inr v) \<Rightarrow>
          (case QueryBase D (base g) (apiName @ ''/'' @ apiVersion @ ''/reverse'') v w of
             ((fc, err), w') \<Rightarrow>
               (Return (Some \<lparr> ReverseResponse.FeatureCollection = fc \<rparr>) err, w')))"

definition Batch_values :: "BatchRequestOpts option \<Rightarrow> error + Values" where
  "Batch_values req =
     (let req = (case req of None \<Rightarrow> zero_BatchRequestOpts | Some r \<Rightarrow> r) in
      query_Values (PtrTo (Struct (BatchRequestOpts_fields req))))"

definition Batch :: "('f, 'feat, 'w) deps \<Rightarrow> Geocode \<Rightarrow> 'f BatchQuery list
    \<Rightarrow> BatchRequestOpts option \<Rightarrow> 'w \<Rightarrow> 'feat BatchResponse returned \<times> 'w" where
  "Batch D g queries req w =
     (case Batch_values req of
        Inl err \<Rightarrow> (Return None (Some err), w)
      | Inr queryValues \<Rightarrow>
          (case QueryWithBodyBase D (base g) (apiName @ ''/'' @ apiVersion @ ''/batch'')
                  queryValues queries w of
             ((entries, err), w') \<Rightarrow>
               (Return (Some \<lparr> BatchResponse.Batch = entries \<rparr>) err, w')))"

subsection \<open>The helpers and the convenience methods\<close>

text \<open>\<open>strings.Join\<close>.\<close>

fun Join :: "string list \<Rightarrow> string \<Rightarrow> string" where
  "Join [] sep = ''''"
| "Join [x] sep = x"
| "Join (x # y # ys) sep = x @ sep @ Join (y # ys) sep"

definition typesToString :: "Type list \<Rightarrow> string" where
  "typesToString types =
     (if length types = 0 then '''' else Join (map (\<lambda>t. t) types) '','')"

definition proximityToString :: "('f, 'feat, 'w) deps \<Rightarrow> 'f list \<Rightarrow> string" where
  "proximityToString D proximity =
     (if length proximity \<noteq> 2 then ''''
      else Sprintf_f D (proximity ! 0) @ '','' @ Sprintf_f D (proximity ! 1))"

definition bboxToString :: "('f, 'feat, 'w) deps \<Rightarrow> 'f BoundingBox \<Rightarrow> string" where
  "bboxToString D bbox =
     (if length bbox \<noteq> 4 then ''''
      else Sprintf_f D (bbox ! 0) @ '','' @ Sprintf_f D (bbox ! 1) @ '','' @
           Sprintf_f D (bbox ! 2) @ '','' @ Sprintf_f D (bbox ! 3))"

text \<open>
  The convenience methods write into the caller's struct when \<open>req\<close> is not nil. Each
  gives the result of its call of \<open>Forward\<close> (or \<open>Reverse\<close>) and, second, the contents of
  the caller's struct after the call (\<open>None\<close> when the caller passed nil).
\<close>

definition ForwardWithTypes :: "('f, 'feat, 'w) deps \<Rightarrow> Geocode \<Rightarrow> string \<Rightarrow> Type list
    \<Rightarrow> ForwardRequestOpts option \<Rightarrow> 'w
    \<Rightarrow> ('feat ForwardResponse returned \<times> 'w) \<times> ForwardRequestOpts option" where
  "ForwardWithTypes D g place types req w =
     (let r0 = (case req of None \<Rightarrow> zero_ForwardRequestOpts | Some r \<Rightarrow> r);
          r1 = (if length types > 0
                then r0 \<lparr> ForwardRequestOpts.Types := typesToString types \<rparr> else r0)
      in (Forward D g place (Some r1) w, map_option (\<lambda>_. r1) req))"

definition ForwardWithProximity :: "('f, 'feat, 'w) deps \<Rightarrow> Geocode \<Rightarrow> string \<Rightarrow> 'f list
    \<Rightarrow> ForwardRequestOpts option \<Rightarrow> 'w
    \<Rightarrow> ('feat ForwardResponse returned \<times> 'w) \<times> ForwardRequestOpts option" where
  "ForwardWithProximity D g place proximity req w =
     (let r0 = (case req of None \<Rightarrow> zero_ForwardRequestOpts | Some r \<Rightarrow> r);
          r1 = (if length proximity = 2
                then r0 \<lparr> ForwardRequestOpts.Proximity := proximityToString D proximity \<rparr>
                else r0)
      in (Forward D g place (Some r1) w, map_option (\<lambda>_. r1) req))"

definition ForwardWithBBox :: "('f, 'feat, 'w) deps \<Rightarrow> Geocode \<Rightarrow> string \<Rightarrow> 'f BoundingBox
    \<Rightarrow> ForwardRequestOpts option \<Rightarrow> 'w
    \<Rightarrow> ('feat ForwardResponse returned \<times> 'w) \<times> ForwardRequestOpts option" where
  "ForwardWithBBox D g place bbox req w =
     (let r0 = (case req of None \<Rightarrow> zero_ForwardRequestOpts | Some r \<Rightarrow> r);
          r1 = (if length bbox = 4
                then r0 \<lparr> ForwardRequestOpts.BBox := bboxToString D bbox \<rparr> else r0)
      in (Forward D g place (Some r1) w, map_option (\<lambda>_. r1) req))"

definition ReverseWithTypes :: "('f, 'feat, 'w) deps \<Rightarrow> Geocode \<Rightarrow> 'f Location option
    \<Rightarrow> Type list \<Rightarrow> ReverseRequestOpts option \<Rightarrow> 'w
    \<Rightarrow> ('feat ReverseResponse returned \<times> 'w) \<times> ReverseRequestOpts option" where
  "ReverseWithTypes D g loc types req w =
     (let r0 = (case req of None \<Rightarrow> zero_ReverseRequestOpts | Some r \<Rightarrow> r);
          r1 = (if length types > 0
                then r0 \<lparr> ReverseRequestOpts.Types := typesToString types \<rparr> else r0)
      in (Reverse D g loc (Some r1) w, map_option (\<lambda>_. r1) req))"

text \<open>\<open>ForwardLegacy\<close>: the variadic \<open>permanent ...bool\<close> is a list.\<close>

definition ForwardLegacy :: "('f, 'feat, 'w) deps \<Rightarrow> Geocode \<Rightarrow> string
    \<Rightarrow> ForwardRequestOpts option \<Rightarrow> bool list \<Rightarrow> 'w
    \<Rightarrow> ('feat ForwardResponse returned \<times> 'w) \<times> ForwardRequestOpts option" where
  "ForwardLegacy D g place req permanent w =
     (let r0 = (case req of None \<Rightarrow> zero_ForwardRequestOpts | Some r \<Rightarrow> r);
          r1 = (if length permanent > 0 \<and> permanent ! 0
                then r0 \<lparr> ForwardRequestOpts.Permanent := True \<rparr> else r0)
      in (Forward D g place (Some r1) w, map_option (\<lambda>_. r1) req))"

definition ReverseLegacy :: "('f, 'feat, 'w) deps \<Rightarrow> Geocode \<Rightarrow> 'f Location option
    \<Rightarrow> ReverseRequestOpts option \<Rightarrow> 'w \<Rightarrow> 'feat ReverseResponse returned \<times> 'w" where
  "ReverseLegacy D g loc req w = Reverse D g loc req w"

subsection \<open>The query string (package net/url)\<close>

text \<open>
  The query string of a \<open>url.Values\<close> is its \<open>Encode\<close>, and a query string is parsed back
  by \<open>url.ParseQuery\<close>; the keys and the values are escaped by \<open>QueryEscape\<close> and
  unescaped by \<open>QueryUnescape\<close>. These are functions of Go's package net/url, which is
  not part of the repository; they are modelled as the package defines them.
\<close>

definition upperhex :: "nat \<Rightarrow> char" where
  "upperhex n = ''0123456789ABCDEF'' ! n"

definition ishex :: "char \<Rightarrow> bool" where
  "ishex c = (let n = (of_char c :: nat) in
     (48 \<le> n \<and> n \<le> 57) \<or> (97 \<le> n \<and> n \<le> 102) \<or> (65 \<le> n \<and> n \<le> 70))"

definition unhex :: "char \<Rightarrow> nat" where
  "unhex c = (let n = (of_char c :: nat) in
     if 48 \<le> n \<and> n \<le> 57 then n - 48
     else if 97 \<le> n \<and> n \<le> 102 then n - 97 + 10
     else if 65 \<le> n \<and> n \<le> 70 then n - 65 + 10
     else 0)"

text \<open>\<open>shouldEscape\<close> for a query component: only letters, digits and \<open>- _ . ~\<close> are kept.\<close>

definition shouldEscape :: "char \<Rightarrow> bool" where
  "shouldEscape c = (let n = (of_char c :: nat) in
     \<not> ((97 \<le> n \<and> n \<le> 122) \<or> (65 \<le> n \<and> n \<le> 90) \<or> (48 \<le> n \<and> n \<le> 57) \<or>
        c = CHR ''-'' \<or> c = CHR ''_'' \<or> c = CHR ''.'' \<or> c = CHR ''~''))"

fun QueryEscape :: "string \<Rightarrow> string" where
  "QueryEscape [] = []"
| "QueryEscape (c # s) =
     (if shouldEscape c
      then (if c = CHR '' '' then ''+''
            else [CHR ''%'', upperhex (of_char c div 16), upperhex (of_char c mod 16)])
      else [c]) @ QueryEscape s"

text \<open>
  \<open>QueryUnescape\<close>: a \<open>%\<close> must be followed by two hex digits, or the result is the
  \<open>EscapeError\<close> of the malformed escape (at most three bytes, quoted in the message;
  \<open>strconv.Quote\<close> would also escape a quote, a backslash and a byte that does not print).
\<close>

fun QueryUnescape :: "string \<Rightarrow> error + string" where
  "QueryUnescape [] = Inr []"
| "QueryUnescape (c # s) =
     (if c = CHR ''%''
      then (case s of
              a # b # rest \<Rightarrow>
                (if ishex a \<and> ishex b
                 then (case QueryUnescape rest of
                         Inl e \<Rightarrow> Inl e
                       | Inr t \<Rightarrow> Inr (char_of (unhex a * 16 + unhex b) # t))
                 else Inl (Error (''invalid URL escape '' @ [CHR 0x22] @ take 3 (c # s)
                                    @ [CHR 0x22])))
            | _ \<Rightarrow> Inl (Error (''invalid URL escape '' @ [CHR 0x22] @ take 3 (c # s)
                                    @ [CHR 0x22])))
      else (case QueryUnescape s of
              Inl e \<Rightarrow> Inl e
            | Inr t \<Rightarrow> Inr ((if c = CHR ''+'' then CHR '' '' else c) # t)))"

text \<open>
  \<open>Values.Encode\<close>: the keys in sorted order, and for each key one \<open>key=value\<close> per value,
  joined by \<open>&\<close>.
\<close>

definition Encode :: "Values \<Rightarrow> string" where
  "Encode v =
     Join (concat (map (\<lambda>k. map (\<lambda>x. QueryEscape k @ ''='' @ QueryEscape x)
                               (case v k of None \<Rightarrow> [] | Some vs \<Rightarrow> vs))
                       (sorted_list_of_set (dom v)))) ''&''"

text \<open>
  \<open>parseQuery\<close>: the loop over the \<open>&\<close>-separated settings. A setting with a semicolon is
  an error, an empty one is skipped, the others are cut at the first \<open>=\<close>, unescaped and
  added; the first unescape error is kept and the loop goes on.
\<close>

function parseQuery :: "Values \<Rightarrow> error option \<Rightarrow> string \<Rightarrow> Values \<times> error option" where
  "parseQuery m err query =
     (if query = [] then (m, err)
      else
        (let key = takeWhile (\<lambda>c. c \<noteq> CHR ''&'') query;
             rest = drop (Suc (length key)) query
         in if CHR '';'' \<in> set key
            then parseQuery m (Some (Error ''invalid semicolon separator in query'')) rest
            else if key = [] then parseQuery m err rest
            else
              (let k = takeWhile (\<lambda>c. c \<noteq> CHR ''='') key;
                   val = drop (Suc (length k)) key
               in case QueryUnescape k of
                    Inl err1 \<Rightarrow> parseQuery m (if err = None then Some err1 else err) rest
                  | Inr k' \<Rightarrow>
                      (case QueryUnescape val of
                         Inl err1 \<Rightarrow> parseQuery m (if err = None then Some err1 else err) rest
                       | Inr val' \<Rightarrow> parseQuery (Add m k' val') err rest))))"
  by pat_completeness auto
termination
  by (relation "measure (\<lambda>(m, err, query). length query)") auto

definition ParseQuery :: "string \<Rightarrow> Values \<times> error option" where
  "ParseQuery query = parseQuery Map.empty None query"

subsection \<open>float64 and the verb \<open>%f\<close> (package fmt)\<close>






section \<open>Notions used by the statements\<close>

text \<open>
  \<open>emitted fs k\<close> lists the values that the encoder's loop adds under the key \<open>k\<close> for
  the fields \<open>fs\<close>.
\<close>

fun emitted :: "field list \<Rightarrow> string \<Rightarrow> string list" where
  "emitted [] k = []"
| "emitted ((name, omitempty, sv) # fs) k =
     (if name = k \<and> \<not> (omitempty \<and> isEmptyValue sv) then valueString sv # emitted fs k
      else emitted fs k)"

text \<open>
  The values that the operations build have finitely many keys and no key with an empty
  list.
\<close>

definition built :: "Values \<Rightarrow> bool" where
  "built v = (finite (dom v) \<and> (\<forall>k. v k \<noteq> Some []))"

text \<open>
  Two properties of the HTTP layer that the geocoding module relies on and does not
  check. An HTTP layer honours the limit when a collection it decodes for a request
  carrying \<open>limit=n\<close> has at most \<open>n\<close> features. It answers in order when the list it
  decodes for a batch request that it reports successful has one entry per query of the
  body, the entry at each position answering the query at that position.
\<close>

definition honours_limit :: "('f, 'feat, 'w) deps \<Rightarrow> bool" where
  "honours_limit D =
     (\<forall>b path v w fc err w' n.
        QueryBase D b path v w = ((Some fc, err), w') \<and> v ''limit'' = Some [FormatUint n]
        \<longrightarrow> length (Features fc) \<le> n)"

definition answers_in_order ::
  "('f BatchQuery \<Rightarrow> 'feat FeatureCollection \<Rightarrow> bool) \<Rightarrow> ('f, 'feat, 'w) deps \<Rightarrow> bool" where
  "answers_in_order answers D =
     (\<forall>b path v body w entries w'.
        QueryWithBodyBase D b path v body w = ((entries, None), w')
        \<longrightarrow> list_all2 answers body entries)"

section \<open>Test doubles for the HTTP layer\<close>

text \<open>
  Concrete instances of the parameters, for evaluating the model: the floats are the whole
  numbers (an \<open>int\<close>), which \<open>%f\<close> prints with six zero decimals and \<open>FormatFloat\<close> prints
  without a fraction; a feature is its name; the world is the log of the requests made,
  each with its path and the query parameters it carried.
\<close>

definition whole_Sprintf_f :: "int \<Rightarrow> string" where
  "whole_Sprintf_f x = (if x < 0 then ''-'' else '''') @ FormatUint (nat \<bar>x\<bar>) @ ''.000000''"

definition whole_FormatFloat :: "int \<Rightarrow> string" where
  "whole_FormatFloat x = (if x < 0 then ''-'' else '''') @ FormatUint (nat \<bar>x\<bar>)"

definition param_names :: "string list" where
  "param_names =
     [''q'', ''longitude'', ''latitude'', ''country'', ''proximity'', ''types'',
      ''autocomplete'', ''bbox'', ''limit'', ''language'', ''worldview'', ''format'',
      ''permanent'']"

definition logged :: "Values \<Rightarrow> (string \<times> string list) list" where
  "logged v = concat (map (\<lambda>k. case v k of None \<Rightarrow> [] | Some vs \<Rightarrow> [(k, vs)]) param_names)"

type_synonym mock_world = "(string \<times> (string \<times> string list) list) list"

definition mock_deps ::
  "(Values \<Rightarrow> string FeatureCollection option \<times> error option)
   \<Rightarrow> (int BatchQuery list \<Rightarrow> string FeatureCollection list \<times> error option)
   \<Rightarrow> (int, string, mock_world) deps" where
  "mock_deps get post =
     \<lparr> QueryBase = (\<lambda>b path v w. (get v, w @ [(path, logged v)])),
       QueryWithBodyBase = (\<lambda>b path v body w. (post body, w @ [(path, logged v)])),
       Sprintf_f = whole_Sprintf_f,
       FormatFloat = whole_FormatFloat \<rparr>"


definition g0 :: Geocode where
  "g0 = NewGeocode \<lparr> token = ''pk.test'' \<rparr>"

text \<open>Servers for \<open>QueryBase\<close>: no feature; two features whatever the limit; one feature
  when the request carries \<open>limit=1\<close> and none otherwise.\<close>

definition features_none :: "Values \<Rightarrow> string FeatureCollection option \<times> error option" where
  "features_none v = (Some \<lparr> Type = ''FeatureCollection'', Features = [] \<rparr>, None)"

definition features_two :: "Values \<Rightarrow> string FeatureCollection option \<times> error option" where
  "features_two v =
     (Some \<lparr> Type = ''FeatureCollection'', Features = [''first'', ''second''] \<rparr>, None)"

definition features_limited :: "Values \<Rightarrow> string FeatureCollection option \<times> error option" where
  "features_limited v =
     (Some \<lparr> Type = ''FeatureCollection'',
             Features = (if v ''limit'' = Some [''1''] then [''first''] else []) \<rparr>, None)"

text \<open>Servers for \<open>QueryWithBodyBase\<close>: \<open>echo\<close> answers a query with one feature named by
  the query's text; one server answers every query in order, one drops the answers after
  the second and reports no error, one gives the first answer together with an error.\<close>

definition echo :: "int BatchQuery \<Rightarrow> string FeatureCollection" where
  "echo q = \<lparr> Type = ''FeatureCollection'', Features = [BatchQuery.Q q] \<rparr>"

definition echo_answers :: "int BatchQuery \<Rightarrow> string FeatureCollection \<Rightarrow> bool" where
  "echo_answers q fc = (fc = echo q)"

definition entries_all :: "int BatchQuery list \<Rightarrow> string FeatureCollection list \<times> error option" where
  "entries_all body = (map echo body, None)"

definition entries_two :: "int BatchQuery list \<Rightarrow> string FeatureCollection list \<times> error option" where
  "entries_two body = (take 2 (map echo body), None)"

definition entries_failing ::
  "int BatchQuery list \<Rightarrow> string FeatureCollection list \<times> error option" where
  "entries_failing body = (take 1 (map echo body), Some ErrorAPILimitExceeded)"

definition query_text :: "string \<Rightarrow> int BatchQuery" where
  "query_text s =
     \<lparr> BatchQuery.Q = s, BatchQuery.Types = '''', BatchQuery.BBox = '''',
       BatchQuery.Limit = 0, BatchQuery.Country = '''', BatchQuery.Language = '''',
       BatchQuery.AddressLine1 = '''', BatchQuery.AddressNumber = '''',
       BatchQuery.Street = '''', BatchQuery.Block = '''', BatchQuery.Place = '''',
       BatchQuery.Region = '''', BatchQuery.Postcode = '''', BatchQuery.Locality = '''',
       BatchQuery.Neighborhood = '''', BatchQuery.Longitude = 0, BatchQuery.Latitude = 0,
       BatchQuery.Autocomplete = False, BatchQuery.Proximity = '''',
       BatchQuery.Worldview = '''', BatchQuery.Format = '''' \<rparr>"

definition three_queries :: "int BatchQuery list" where
  "three_queries = [query_text ''New York City'', query_text ''Boston'', query_text ''Paris'']"

section \<open>Verification\<close>

subsection \<open>What the encoder stores under a key\<close>

lemma Add_lookup:
  "Add v n s k = (if k = n then Some ((case v k of None \<Rightarrow> [] | Some vs \<Rightarrow> vs) @ [s]) else v k)"
  by (simp add: Add_def split: option.split)

lemma reflectValue_lookup:
  "reflectValue v fs k =
     (if emitted fs k = [] then v k
      else Some ((case v k of None \<Rightarrow> [] | Some vs \<Rightarrow> vs) @ emitted fs k))"
proof (induction fs arbitrary: v)
  case Nil
  show ?case by simp
next
  case (Cons f fs)
  obtain n om sv where f: "f = (n, om, sv)" by (cases f) auto
  show ?case
  proof (cases "om \<and> isEmptyValue sv")
    case True
    then show ?thesis using Cons.IH [of v] by (simp add: f)
  next
    case False
    then have "reflectValue v (f # fs) k = reflectValue (Add v n (valueString sv)) fs k"
      by (auto simp: f)
    also have "\<dots> = (if emitted fs k = [] then Add v n (valueString sv) k
        else Some ((case Add v n (valueString sv) k of None \<Rightarrow> [] | Some vs \<Rightarrow> vs)
                     @ emitted fs k))"
      by (rule Cons.IH)
    also have "\<dots> = (if emitted (f # fs) k = [] then v k
        else Some ((case v k of None \<Rightarrow> [] | Some vs \<Rightarrow> vs) @ emitted (f # fs) k))"
      using False by (auto simp: f Add_lookup)
    finally show ?thesis .
  qed
qed

subsection \<open>The values each operation builds\<close>

lemma Forward_values_eq:
  "Forward_values place req =
     Inr (Set_value (reflectValue Map.empty (ForwardRequestOpts_fields
            (case req of None \<Rightarrow> zero_ForwardRequestOpts | Some r \<Rightarrow> r))) ''q'' place)"
  by (simp add: Forward_values_def)

lemma ForwardStructured_values_eq:
  "ForwardStructured_values (Some r) = Inr (reflectValue Map.empty (StructuredInputOpts_fields r))"
  by (simp add: ForwardStructured_values_def)

lemma Reverse_values_eq:
  "Reverse_values D (Some l) req =
     Some (Inr (Set_value (Set_value (reflectValue Map.empty (ReverseRequestOpts_fields
            (case req of None \<Rightarrow> zero_ReverseRequestOpts | Some r \<Rightarrow> r)))
          ''longitude'' (FormatFloat D (Location.Longitude l)))
          ''latitude'' (FormatFloat D (Location.Latitude l))))"
  by (simp add: Reverse_values_def)

lemma Batch_values_eq:
  "Batch_values req =
     Inr (reflectValue Map.empty (BatchRequestOpts_fields
            (case req of None \<Rightarrow> zero_BatchRequestOpts | Some r \<Rightarrow> r)))"
  by (simp add: Batch_values_def)

subsection \<open>The nil pointer, the limit, the joined types\<close>

lemma Forward_nil:
  "Forward D g place None w = Forward D g place (Some zero_ForwardRequestOpts) w"
  by (simp add: Forward_def Forward_values_def)

lemma Reverse_nil:
  "Reverse D g loc None w = Reverse D g loc (Some zero_ReverseRequestOpts) w"
  by (simp add: Reverse_def Reverse_values_def)

lemma Batch_nil:
  "Batch D g queries None w = Batch D g queries (Some zero_BatchRequestOpts) w"
  by (simp add: Batch_def Batch_values_def)

lemma Forward_no_panic: "fst (Forward D g place req w) \<noteq> Panic"
  by (simp add: Forward_def Forward_values_eq split: prod.split)

lemma Reverse_no_panic: "fst (Reverse D g (Some l) req w) \<noteq> Panic"
  by (simp add: Reverse_def Reverse_values_eq split: prod.split)

lemma Batch_no_panic: "fst (Batch D g queries req w) \<noteq> Panic"
  by (simp add: Batch_def Batch_values_eq split: prod.split)

lemma Forward_limit:
  "ForwardRequestOpts.Limit r \<noteq> 0 \<Longrightarrow>
     emitted (ForwardRequestOpts_fields r) ''limit''
       = [FormatUint (unat (ForwardRequestOpts.Limit r))]"
  by (simp add: ForwardRequestOpts_fields_def)

lemma Join_types_example: "Join [Address, Place] '','' = ''address,place''"
  by (simp add: Address_def Place_def)

lemma typesToString_Join: "typesToString ts = Join ts '',''"
  by (simp add: typesToString_def)

subsection \<open>Parsing an encoded query string gives the values back\<close>

declare parseQuery.simps [simp del]

lemma hex_digit:
  assumes "n < 16"
  shows "ishex (upperhex n)" and "unhex (upperhex n) = n"
    and "upperhex n \<noteq> CHR ''&''" and "upperhex n \<noteq> CHR ''=''" and "upperhex n \<noteq> CHR '';''"
proof -
  from assms have "n \<in> {0, 1, 2, 3, 4, 5, 6, 7, 8, 9, 10, 11, 12, 13, 14, 15}"
    by simp arith
  then show "ishex (upperhex n)" and "unhex (upperhex n) = n"
    and "upperhex n \<noteq> CHR ''&''" and "upperhex n \<noteq> CHR ''=''" and "upperhex n \<noteq> CHR '';''"
    by (auto simp: upperhex_def ishex_def unhex_def)
qed

lemma nibbles:
  "(of_char c :: nat) div 16 < 16" "(of_char c :: nat) mod 16 < 16"
  "char_of ((of_char c :: nat) div 16 * 16 + of_char c mod 16) = c"
proof -
  have "(of_char c :: nat) < 256" by simp
  then show "(of_char c :: nat) div 16 < 16" by (simp add: div_less_iff_less_mult)
  show "(of_char c :: nat) mod 16 < 16" by simp
  show "char_of ((of_char c :: nat) div 16 * 16 + of_char c mod 16) = c" by simp
qed

lemma kept_char:
  assumes "\<not> shouldEscape c"
  shows "c \<noteq> CHR ''%''" "c \<noteq> CHR ''+''" "c \<noteq> CHR ''&''" "c \<noteq> CHR ''=''" "c \<noteq> CHR '';''"
  using assms by (auto simp: shouldEscape_def)

lemma QueryUnescape_QueryEscape: "QueryUnescape (QueryEscape s) = Inr s"
proof (induction s)
  case Nil
  show ?case by simp
next
  case (Cons c s)
  show ?case
  proof (cases "shouldEscape c")
    case False
    with Cons kept_char [of c] show ?thesis by simp
  next
    case True
    show ?thesis
    proof (cases "c = CHR '' ''")
      case True
      with \<open>shouldEscape c\<close> Cons show ?thesis by simp
    next
      case False
      with \<open>shouldEscape c\<close> Cons show ?thesis
        by (simp add: hex_digit nibbles)
    qed
  qed
qed

lemma QueryEscape_chars:
  "x \<in> set (QueryEscape s) \<Longrightarrow> x \<noteq> CHR ''&'' \<and> x \<noteq> CHR ''='' \<and> x \<noteq> CHR '';''"
proof (induction s)
  case Nil
  then show ?case by simp
next
  case (Cons c s)
  then show ?case
    using kept_char [of c] hex_digit [OF nibbles(1) [of c]] hex_digit [OF nibbles(2) [of c]]
    by (auto split: if_splits)
qed

lemma takeWhile_stop:
  assumes "\<forall>x \<in> set xs. x \<noteq> y"
  shows "takeWhile (\<lambda>c. c \<noteq> y) (xs @ y # ys) = xs"
    and "drop (Suc (length xs)) (xs @ y # ys) = ys"
  using assms by (simp_all add: takeWhile_tail)

lemma takeWhile_all:
  assumes "\<forall>x \<in> set xs. x \<noteq> y"
  shows "takeWhile (\<lambda>c. c \<noteq> y) xs = xs"
  using assms by simp

text \<open>One setting \<open>key=value\<close>, followed by more settings or the last one.\<close>

lemma setting_cut:
  "takeWhile (\<lambda>c. c \<noteq> CHR ''='') (QueryEscape k @ CHR ''='' # QueryEscape x) = QueryEscape k"
  "drop (Suc (length (QueryEscape k))) (QueryEscape k @ CHR ''='' # QueryEscape x) = QueryEscape x"
  using takeWhile_stop [of "QueryEscape k" "CHR ''=''" "QueryEscape x"] QueryEscape_chars [of _ k]
  by auto

lemma setting_chars:
  "\<forall>c \<in> set (QueryEscape k @ CHR ''='' # QueryEscape x). c \<noteq> CHR ''&''"
  "CHR '';'' \<notin> set (QueryEscape k @ CHR ''='' # QueryEscape x)"
  "QueryEscape k @ CHR ''='' # QueryEscape x \<noteq> []"
  using QueryEscape_chars [of _ k] QueryEscape_chars [of _ x] by auto

lemma parseQuery_Nil: "parseQuery m err [] = (m, err)"
  by (subst parseQuery.simps) simp

lemma parseQuery_setting:
  "parseQuery m err (QueryEscape k @ CHR ''='' # QueryEscape x @ CHR ''&'' # rest)
     = parseQuery (Add m k x) err rest"
proof -
  let ?seg = "QueryEscape k @ CHR ''='' # QueryEscape x"
  have cut: "takeWhile (\<lambda>c. c \<noteq> CHR ''&'') (?seg @ CHR ''&'' # rest) = ?seg"
    "drop (Suc (length ?seg)) (?seg @ CHR ''&'' # rest) = rest"
    using takeWhile_stop [OF setting_chars(1), of k x rest] by simp_all
  have "parseQuery m err (?seg @ CHR ''&'' # rest) = parseQuery (Add m k x) err rest"
    apply (subst parseQuery.simps)
    apply (simp only: cut Let_def setting_cut)
    using setting_chars(2,3) [of k x]
    apply (simp add: QueryUnescape_QueryEscape)
    done
  then show ?thesis by simp
qed

lemma parseQuery_last_setting:
  "parseQuery m err (QueryEscape k @ CHR ''='' # QueryEscape x) = (Add m k x, err)"
proof -
  let ?seg = "QueryEscape k @ CHR ''='' # QueryEscape x"
  have cut: "takeWhile (\<lambda>c. c \<noteq> CHR ''&'') ?seg = ?seg"
    using takeWhile_all [OF setting_chars(1), of k x] by simp
  show ?thesis
    apply (subst parseQuery.simps)
    apply (simp only: cut Let_def setting_cut)
    using setting_chars(2,3) [of k x]
    apply (simp add: QueryUnescape_QueryEscape parseQuery_Nil)
    done
qed

text \<open>The settings of a list of key and value pairs, parsed one after the other.\<close>

lemma parseQuery_settings:
  "parseQuery m err (Join (map (\<lambda>(k, x). QueryEscape k @ ''='' @ QueryEscape x) kxs) ''&'')
     = (foldl (\<lambda>m (k, x). Add m k x) m kxs, err)"
proof (induction kxs arbitrary: m)
  case Nil
  show ?case by (simp add: parseQuery_Nil)
next
  case (Cons kx kxs)
  obtain k x where kx: "kx = (k, x)" by (cases kx)
  show ?case
  proof (cases kxs)
    case Nil
    then show ?thesis by (simp add: kx parseQuery_last_setting)
  next
    case (Cons kx' kxs')
    with Cons.IH [of "Add m k x"] show ?thesis
      by (simp add: kx parseQuery_setting)
  qed
qed

text \<open>Adding the values of one key, then of each key of a list of distinct keys.\<close>

lemma foldl_Add_key:
  "foldl (\<lambda>m (k, x). Add m k x) m (map (Pair k) xs) k'
     = (if k' = k \<and> xs \<noteq> [] then Some ((case m k of None \<Rightarrow> [] | Some vs \<Rightarrow> vs) @ xs)
        else m k')"
proof (induction xs arbitrary: m)
  case Nil
  show ?case by simp
next
  case (Cons x xs)
  show ?case
    using Cons [of "Add m k x"] by (simp add: Add_lookup)
qed

lemma foldl_Add_keys:
  assumes "distinct ks" and "\<forall>k \<in> set ks. m k = None"
  shows "foldl (\<lambda>m (k, x). Add m k x) m (concat (map (\<lambda>k. map (Pair k) (f k)) ks)) k'
     = (if k' \<in> set ks \<and> f k' \<noteq> [] then Some (f k') else m k')"
  using assms
proof (induction ks arbitrary: m)
  case Nil
  show ?case by simp
next
  case (Cons k ks)
  let ?m = "foldl (\<lambda>m (k, x). Add m k x) m (map (Pair k) (f k))"
  have "\<forall>k' \<in> set ks. ?m k' = None"
    using Cons.prems by (auto simp: foldl_Add_key)
  with Cons.prems have "foldl (\<lambda>m (k, x). Add m k x) ?m
        (concat (map (\<lambda>k. map (Pair k) (f k)) ks)) k'
      = (if k' \<in> set ks \<and> f k' \<noteq> [] then Some (f k') else ?m k')"
    by (intro Cons.IH) simp_all
  then show ?case
    using Cons.prems by (auto simp: foldl_Add_key)
qed

lemma ParseQuery_Encode:
  assumes "finite (dom v)"
  shows "ParseQuery (Encode v) = ((\<lambda>k. case v k of Some [] \<Rightarrow> None | r \<Rightarrow> r), None)"
proof -
  let ?ks = "sorted_list_of_set (dom v)"
  let ?f = "\<lambda>k. case v k of None \<Rightarrow> [] | Some vs \<Rightarrow> vs"
  let ?kxs = "concat (map (\<lambda>k. map (Pair k) (?f k)) ?ks)"
  have "concat (map (\<lambda>k. map (\<lambda>x. QueryEscape k @ ''='' @ QueryEscape x) (?f k)) ?ks)
      = map (\<lambda>(k, x). QueryEscape k @ ''='' @ QueryEscape x) ?kxs"
    by (simp add: map_concat comp_def)
  then have "ParseQuery (Encode v) = (foldl (\<lambda>m (k, x). Add m k x) Map.empty ?kxs, None)"
    by (simp only: ParseQuery_def Encode_def parseQuery_settings)
  moreover have "foldl (\<lambda>m (k, x). Add m k x) Map.empty ?kxs k
      = (case v k of Some [] \<Rightarrow> None | r \<Rightarrow> r)" for k
    using assms
    by (subst foldl_Add_keys) (auto split: option.splits list.splits)
  ultimately show ?thesis by (simp add: fun_eq_iff)
qed

lemma Forward_call:
  "Forward D g place req w =
     (case QueryBase D (base g) ''search/geocode/v6/forward''
             (Set_value (reflectValue Map.empty (ForwardRequestOpts_fields
                (case req of None \<Rightarrow> zero_ForwardRequestOpts | Some r \<Rightarrow> r))) ''q'' place) w of
        ((fc, err), w') \<Rightarrow> (Return (Some \<lparr> ForwardResponse.FeatureCollection = fc \<rparr>) err, w'))"
  by (simp add: Forward_def Forward_values_eq apiName_def apiVersion_def)

lemma ForwardStructured_call:
  "ForwardStructured D g (Some r) w =
     (case QueryBase D (base g) ''search/geocode/v6/forward''
             (reflectValue Map.empty (StructuredInputOpts_fields r)) w of
        ((fc, err), w') \<Rightarrow> (Return (Some \<lparr> ForwardResponse.FeatureCollection = fc \<rparr>) err, w'))"
  by (simp add: ForwardStructured_def ForwardStructured_values_eq apiName_def apiVersion_def)

lemma Reverse_call:
  "Reverse D g (Some l) req w =
     (case QueryBase D (base g) ''search/geocode/v6/reverse''
             (Set_value (Set_value (reflectValue Map.empty (ReverseRequestOpts_fields
                (case req of None \<Rightarrow> zero_ReverseRequestOpts | Some r \<Rightarrow> r)))
                ''longitude'' (FormatFloat D (Location.Longitude l)))
                ''latitude'' (FormatFloat D (Location.Latitude l))) w of
        ((fc, err), w') \<Rightarrow> (Return (Some \<lparr> ReverseResponse.FeatureCollection = fc \<rparr>) err, w'))"
  by (simp add: Reverse_def Reverse_values_eq apiName_def apiVersion_def)

lemma Batch_call:
  "Batch D g queries req w =
     (case QueryWithBodyBase D (base g) ''search/geocode/v6/batch''
             (reflectValue Map.empty (BatchRequestOpts_fields
                (case req of None \<Rightarrow> zero_BatchRequestOpts | Some r \<Rightarrow> r))) queries w of
        ((entries, err), w') \<Rightarrow> (Return (Some \<lparr> BatchResponse.Batch = entries \<rparr>) err, w'))"
  by (simp add: Batch_def Batch_values_eq apiName_def apiVersion_def)

text \<open>
  The values that the operations build have finitely many keys and no key with an empty
  list, so their query string parses back to them.
\<close>

lemma built_empty: "built Map.empty"
  by (simp add: built_def)

lemma built_Add: "built v \<Longrightarrow> built (Add v k x)"
  by (auto simp: built_def Add_def split: option.splits)

lemma built_Set_value: "built v \<Longrightarrow> built (Set_value v k x)"
  by (auto simp: built_def Set_value_def)

lemma built_reflectValue_from: "built v \<Longrightarrow> built (reflectValue v fs)"
  by (induction v fs rule: reflectValue.induct) (simp_all add: built_Add)

lemma built_reflectValue: "built (reflectValue Map.empty fs)"
  by (simp add: built_reflectValue_from built_empty)

lemma ParseQuery_Encode_built:
  assumes "built v"
  shows "ParseQuery (Encode v) = (v, None)"
proof -
  from assms have "(\<lambda>k. case v k of Some [] \<Rightarrow> None | r \<Rightarrow> r) = v"
    by (auto simp: built_def fun_eq_iff split: option.splits list.splits)
  with assms ParseQuery_Encode [of v] show ?thesis
    by (simp add: built_def)
qed

subsection \<open>The values each operation hands to the HTTP layer\<close>

lemma ForwardRequestOpts_emitted:
  "emitted (ForwardRequestOpts_fields r) ''country'' = (if ForwardRequestOpts.Country r = '''' then [] else [ForwardRequestOpts.Country r])"
  "emitted (ForwardRequestOpts_fields r) ''proximity'' = (if ForwardRequestOpts.Proximity r = '''' then [] else [ForwardRequestOpts.Proximity r])"
  "emitted (ForwardRequestOpts_fields r) ''types'' = (if ForwardRequestOpts.Types r = '''' then [] else [ForwardRequestOpts.Types r])"
  "emitted (ForwardRequestOpts_fields r) ''autocomplete'' = (if ForwardRequestOpts.Autocomplete r then [''true''] else [])"
  "emitted (ForwardRequestOpts_fields r) ''bbox'' = (if ForwardRequestOpts.BBox r = '''' then [] else [ForwardRequestOpts.BBox r])"
  "emitted (ForwardRequestOpts_fields r) ''limit'' = (if ForwardRequestOpts.Limit r = 0 then [] else [FormatUint (unat (ForwardRequestOpts.Limit r))])"
  "emitted (ForwardRequestOpts_fields r) ''language'' = (if ForwardRequestOpts.Language r = '''' then [] else [ForwardRequestOpts.Language r])"
  "emitted (ForwardRequestOpts_fields r) ''worldview'' = (if ForwardRequestOpts.Worldview r = '''' then [] else [ForwardRequestOpts.Worldview r])"
  "emitted (ForwardRequestOpts_fields r) ''format'' = (if ForwardRequestOpts.Format r = '''' then [] else [ForwardRequestOpts.Format r])"
  "emitted (ForwardRequestOpts_fields r) ''permanent'' = (if ForwardRequestOpts.Permanent r then [''true''] else [])"
  "emitted (ForwardRequestOpts_fields r) ''q'' = []"
  by (simp_all add: ForwardRequestOpts_fields_def)

lemma StructuredInputOpts_emitted:
  "emitted (StructuredInputOpts_fields r) ''address_line1'' = (if StructuredInputOpts.AddressLine1 r = '''' then [] else [StructuredInputOpts.AddressLine1 r])"
  "emitted (StructuredInputOpts_fields r) ''address_number'' = (if StructuredInputOpts.AddressNumber r = '''' then [] else [StructuredInputOpts.AddressNumber r])"
  "emitted (StructuredInputOpts_fields r) ''street'' = (if StructuredInputOpts.Street r = '''' then [] else [StructuredInputOpts.Street r])"
  "emitted (StructuredInputOpts_fields r) ''block'' = (if StructuredInputOpts.Block r = '''' then [] else [StructuredInputOpts.Block r])"
  "emitted (StructuredInputOpts_fields r) ''place'' = (if StructuredInputOpts.Place r = '''' then [] else [StructuredInputOpts.Place r])"
  "emitted (StructuredInputOpts_fields r) ''region'' = (if StructuredInputOpts.Region r = '''' then [] else [StructuredInputOpts.Region r])"
  "emitted (StructuredInputOpts_fields r) ''postcode'' = (if StructuredInputOpts.Postcode r = '''' then [] else [StructuredInputOpts.Postcode r])"
  "emitted (StructuredInputOpts_fields r) ''locality'' = (if StructuredInputOpts.Locality r = '''' then [] else [StructuredInputOpts.Locality r])"
  "emitted (StructuredInputOpts_fields r) ''neighborhood'' = (if StructuredInputOpts.Neighborhood r = '''' then [] else [StructuredInputOpts.Neighborhood r])"
  "emitted (StructuredInputOpts_fields r) ''country'' = (if StructuredInputOpts.Country r = '''' then [] else [StructuredInputOpts.Country r])"
  "emitted (StructuredInputOpts_fields r) ''autocomplete'' = (if StructuredInputOpts.Autocomplete r then [''true''] else [])"
  "emitted (StructuredInputOpts_fields r) ''bbox'' = (if StructuredInputOpts.BBox r = '''' then [] else [StructuredInputOpts.BBox r])"
  "emitted (StructuredInputOpts_fields r) ''format'' = (if StructuredInputOpts.Format r = '''' then [] else [StructuredInputOpts.Format r])"
  "emitted (StructuredInputOpts_fields r) ''language'' = (if StructuredInputOpts.Language r = '''' then [] else [StructuredInputOpts.Language r])"
  "emitted (StructuredInputOpts_fields r) ''limit'' = (if StructuredInputOpts.Limit r = 0 then [] else [FormatUint (unat (StructuredInputOpts.Limit r))])"
  "emitted (StructuredInputOpts_fields r) ''proximity'' = (if StructuredInputOpts.Proximity r = '''' then [] else [StructuredInputOpts.Proximity r])"
  "emitted (StructuredInputOpts_fields r) ''types'' = (if StructuredInputOpts.Types r = '''' then [] else [StructuredInputOpts.Types r])"
  "emitted (StructuredInputOpts_fields r) ''worldview'' = (if StructuredInputOpts.Worldview r = '''' then [] else [StructuredInputOpts.Worldview r])"
  "emitted (StructuredInputOpts_fields r) ''permanent'' = (if StructuredInputOpts.Permanent r then [''true''] else [])"
  by (simp_all add: StructuredInputOpts_fields_def)

lemma ReverseRequestOpts_emitted:
  "emitted (ReverseRequestOpts_fields r) ''types'' = (if ReverseRequestOpts.Types r = '''' then [] else [ReverseRequestOpts.Types r])"
  "emitted (ReverseRequestOpts_fields r) ''limit'' = (if ReverseRequestOpts.Limit r = 0 then [] else [FormatUint (unat (ReverseRequestOpts.Limit r))])"
  "emitted (ReverseRequestOpts_fields r) ''country'' = (if ReverseRequestOpts.Country r = '''' then [] else [ReverseRequestOpts.Country r])"
  "emitted (ReverseRequestOpts_fields r) ''language'' = (if ReverseRequestOpts.Language r = '''' then [] else [ReverseRequestOpts.Language r])"
  "emitted (ReverseRequestOpts_fields r) ''worldview'' = (if ReverseRequestOpts.Worldview r = '''' then [] else [ReverseRequestOpts.Worldview r])"
  "emitted (ReverseRequestOpts_fields r) ''permanent'' = (if ReverseRequestOpts.Permanent r then [''true''] else [])"
  "emitted (ReverseRequestOpts_fields r) ''longitude'' = []"
  "emitted (ReverseRequestOpts_fields r) ''latitude'' = []"
  by (simp_all add: ReverseRequestOpts_fields_def)

lemma BatchRequestOpts_emitted:
  "emitted (BatchRequestOpts_fields r) ''permanent'' = (if BatchRequestOpts.Permanent r then [''true''] else [])"
  by (simp_all add: BatchRequestOpts_fields_def)
lemma Forward_sends:
  "(\<exists>v. (\<forall>(D :: ('f, 'feat, 'w) deps) g w. Forward D g place (Some fr) w =
         (case QueryBase D (base g) ''search/geocode/v6/forward'' v w of
            ((fc, err), w') \<Rightarrow> (Return (Some \<lparr> ForwardResponse.FeatureCollection = fc \<rparr>) err, w'))) \<and>
          ParseQuery (Encode v) = (v, None) \<and>
          v ''q'' = Some [place] \<and>
          v ''country'' = (if ForwardRequestOpts.Country fr = '''' then None else Some [ForwardRequestOpts.Country fr]) \<and>
          v ''proximity'' = (if ForwardRequestOpts.Proximity fr = '''' then None else Some [ForwardRequestOpts.Proximity fr]) \<and>
          v ''types'' = (if ForwardRequestOpts.Types fr = '''' then None else Some [ForwardRequestOpts.Types fr]) \<and>
          v ''autocomplete'' = (if ForwardRequestOpts.Autocomplete fr then Some [''true''] else None) \<and>
          v ''bbox'' = (if ForwardRequestOpts.BBox fr = '''' then None else Some [ForwardRequestOpts.BBox fr]) \<and>
          v ''limit'' = (if ForwardRequestOpts.Limit fr = 0 then None else Some [FormatUint (unat (ForwardRequestOpts.Limit fr))]) \<and>
          v ''language'' = (if ForwardRequestOpts.Language fr = '''' then None else Some [ForwardRequestOpts.Language fr]) \<and>
          v ''worldview'' = (if ForwardRequestOpts.Worldview fr = '''' then None else Some [ForwardRequestOpts.Worldview fr]) \<and>
          v ''format'' = (if ForwardRequestOpts.Format fr = '''' then None else Some [ForwardRequestOpts.Format fr]) \<and>
          v ''permanent'' = (if ForwardRequestOpts.Permanent fr then Some [''true''] else None))"
proof -
  let ?v = "Set_value (reflectValue Map.empty (ForwardRequestOpts_fields fr)) ''q'' place"
  have call: "\<forall>(D :: ('f, 'feat, 'w) deps) g w. Forward D g place (Some fr) w =
      (case QueryBase D (base g) ''search/geocode/v6/forward'' ?v w of
         ((fc, err), w') \<Rightarrow> (Return (Some \<lparr> ForwardResponse.FeatureCollection = fc \<rparr>) err, w'))"
    by (simp add: Forward_call)
  have parse: "ParseQuery (Encode ?v) = (?v, None)"
    by (intro ParseQuery_Encode_built built_Set_value built_reflectValue)
  have keys:
    "?v ''q'' = Some [place]"
    "?v ''country'' = (if ForwardRequestOpts.Country fr = '''' then None else Some [ForwardRequestOpts.Country fr])"
    "?v ''proximity'' = (if ForwardRequestOpts.Proximity fr = '''' then None else Some [ForwardRequestOpts.Proximity fr])"
    "?v ''types'' = (if ForwardRequestOpts.Types fr = '''' then None else Some [ForwardRequestOpts.Types fr])"
    "?v ''autocomplete'' = (if ForwardRequestOpts.Autocomplete fr then Some [''true''] else None)"
    "?v ''bbox'' = (if ForwardRequestOpts.BBox fr = '''' then None else Some [ForwardRequestOpts.BBox fr])"
    "?v ''limit'' = (if ForwardRequestOpts.Limit fr = 0 then None else Some [FormatUint (unat (ForwardRequestOpts.Limit fr))])"
    "?v ''language'' = (if ForwardRequestOpts.Language fr = '''' then None else Some [ForwardRequestOpts.Language fr])"
    "?v ''worldview'' = (if ForwardRequestOpts.Worldview fr = '''' then None else Some [ForwardRequestOpts.Worldview fr])"
    "?v ''format'' = (if ForwardRequestOpts.Format fr = '''' then None else Some [ForwardRequestOpts.Format fr])"
    "?v ''permanent'' = (if ForwardRequestOpts.Permanent fr then Some [''true''] else None)"
    by (simp_all add: Set_value_def reflectValue_lookup ForwardRequestOpts_emitted)
  show ?thesis
    by (intro exI [of _ ?v] conjI call parse keys)
qed

lemma ForwardStructured_sends:
  "(\<exists>v. (\<forall>(D :: ('f, 'feat, 'w) deps) g w. ForwardStructured D g (Some sr) w =
         (case QueryBase D (base g) ''search/geocode/v6/forward'' v w of
            ((fc, err), w') \<Rightarrow> (Return (Some \<lparr> ForwardResponse.FeatureCollection = fc \<rparr>) err, w'))) \<and>
          ParseQuery (Encode v) = (v, None) \<and>
          v ''address_line1'' = (if StructuredInputOpts.AddressLine1 sr = '''' then None else Some [StructuredInputOpts.AddressLine1 sr]) \<and>
          v ''address_number'' = (if StructuredInputOpts.AddressNumber sr = '''' then None else Some [StructuredInputOpts.AddressNumber sr]) \<and>
          v ''street'' = (if StructuredInputOpts.Street sr = '''' then None else Some [StructuredInputOpts.Street sr]) \<and>
          v ''block'' = (if StructuredInputOpts.Block sr = '''' then None else Some [StructuredInputOpts.Block sr]) \<and>
          v ''place'' = (if StructuredInputOpts.Place sr = '''' then None else Some [StructuredInputOpts.Place sr]) \<and>
          v ''region'' = (if StructuredInputOpts.Region sr = '''' then None else Some [StructuredInputOpts.Region sr]) \<and>
          v ''postcode'' = (if StructuredInputOpts.Postcode sr = '''' then None else Some [StructuredInputOpts.Postcode sr]) \<and>
          v ''locality'' = (if StructuredInputOpts.Locality sr = '''' then None else Some [StructuredInputOpts.Locality sr]) \<and>
          v ''neighborhood'' = (if StructuredInputOpts.Neighborhood sr = '''' then None else Some [StructuredInputOpts.Neighborhood sr]) \<and>
          v ''country'' = (if StructuredInputOpts.Country sr = '''' then None else Some [StructuredInputOpts.Country sr]) \<and>
          v ''autocomplete'' = (if StructuredInputOpts.Autocomplete sr then Some [''true''] else None) \<and>
          v ''bbox'' = (if StructuredInputOpts.BBox sr = '''' then None else Some [StructuredInputOpts.BBox sr]) \<and>
          v ''format'' = (if StructuredInputOpts.Format sr = '''' then None else Some [StructuredInputOpts.Format sr]) \<and>
          v ''language'' = (if StructuredInputOpts.Language sr = '''' then None else Some [StructuredInputOpts.Language sr]) \<and>
          v ''limit'' = (if StructuredInputOpts.Limit sr = 0 then None else Some [FormatUint (unat (StructuredInputOpts.Limit sr))]) \<and>
          v ''proximity'' = (if StructuredInputOpts.Proximity sr = '''' then None else Some [StructuredInputOpts.Proximity sr]) \<and>
          v ''types'' = (if StructuredInputOpts.Types sr = '''' then None else Some [StructuredInputOpts.Types sr]) \<and>
          v ''worldview'' = (if StructuredInputOpts.Worldview sr = '''' then None else Some [StructuredInputOpts.Worldview sr]) \<and>
          v ''permanent'' = (if StructuredInputOpts.Permanent sr then Some [''true''] else None))"
proof -
  let ?v = "reflectValue Map.empty (StructuredInputOpts_fields sr)"
  have call: "\<forall>(D :: ('f, 'feat, 'w) deps) g w. ForwardStructured D g (Some sr) w =
      (case QueryBase D (base g) ''search/geocode/v6/forward'' ?v w of
         ((fc, err), w') \<Rightarrow> (Return (Some \<lparr> ForwardResponse.FeatureCollection = fc \<rparr>) err, w'))"
    by (simp add: ForwardStructured_call)
  have parse: "ParseQuery (Encode ?v) = (?v, None)"
    by (intro ParseQuery_Encode_built built_Set_value built_reflectValue)
  have keys:
    "?v ''address_line1'' = (if StructuredInputOpts.AddressLine1 sr = '''' then None else Some [StructuredInputOpts.AddressLine1 sr])"
    "?v ''address_number'' = (if StructuredInputOpts.AddressNumber sr = '''' then None else Some [StructuredInputOpts.AddressNumber sr])"
    "?v ''street'' = (if StructuredInputOpts.Street sr = '''' then None else Some [StructuredInputOpts.Street sr])"
    "?v ''block'' = (if StructuredInputOpts.Block sr = '''' then None else Some [StructuredInputOpts.Block sr])"
    "?v ''place'' = (if StructuredInputOpts.Place sr = '''' then None else Some [StructuredInputOpts.Place sr])"
    "?v ''region'' = (if StructuredInputOpts.Region sr = '''' then None else Some [StructuredInputOpts.Region sr])"
    "?v ''postcode'' = (if StructuredInputOpts.Postcode sr = '''' then None else Some [StructuredInputOpts.Postcode sr])"
    "?v ''locality'' = (if StructuredInputOpts.Locality sr = '''' then None else Some [StructuredInputOpts.Locality sr])"
    "?v ''neighborhood'' = (if StructuredInputOpts.Neighborhood sr = '''' then None else Some [StructuredInputOpts.Neighborhood sr])"
    "?v ''country'' = (if StructuredInputOpts.Country sr = '''' then None else Some [StructuredInputOpts.Country sr])"
    "?v ''autocomplete'' = (if StructuredInputOpts.Autocomplete sr then Some [''true''] else None)"
    "?v ''bbox'' = (if StructuredInputOpts.BBox sr = '''' then None else Some [StructuredInputOpts.BBox sr])"
    "?v ''format'' = (if StructuredInputOpts.Format sr = '''' then None else Some [StructuredInputOpts.Format sr])"
    "?v ''language'' = (if StructuredInputOpts.Language sr = '''' then None else Some [StructuredInputOpts.Language sr])"
    "?v ''limit'' = (if StructuredInputOpts.Limit sr = 0 then None else Some [FormatUint (unat (StructuredInputOpts.Limit sr))])"
    "?v ''proximity'' = (if StructuredInputOpts.Proximity sr = '''' then None else Some [StructuredInputOpts.Proximity sr])"
    "?v ''types'' = (if StructuredInputOpts.Types sr = '''' then None else Some [StructuredInputOpts.Types sr])"
    "?v ''worldview'' = (if StructuredInputOpts.Worldview sr = '''' then None else Some [StructuredInputOpts.Worldview sr])"
    "?v ''permanent'' = (if StructuredInputOpts.Permanent sr then Some [''true''] else None)"
    by (simp_all add: Set_value_def reflectValue_lookup StructuredInputOpts_emitted)
  show ?thesis
    by (intro exI [of _ ?v] conjI call parse keys)
qed

lemma Reverse_sends:
  "(\<exists>v. (\<forall>g w. Reverse D g (Some l) (Some rr) w =
         (case QueryBase D (base g) ''search/geocode/v6/reverse'' v w of
            ((fc, err), w') \<Rightarrow> (Return (Some \<lparr> ReverseResponse.FeatureCollection = fc \<rparr>) err, w'))) \<and>
          ParseQuery (Encode v) = (v, None) \<and>
          v ''longitude'' = Some [FormatFloat D (Location.Longitude l)] \<and>
          v ''latitude'' = Some [FormatFloat D (Location.Latitude l)] \<and>
          v ''types'' = (if ReverseRequestOpts.Types rr = '''' then None else Some [ReverseRequestOpts.Types rr]) \<and>
          v ''limit'' = (if ReverseRequestOpts.Limit rr = 0 then None else Some [FormatUint (unat (ReverseRequestOpts.Limit rr))]) \<and>
          v ''country'' = (if ReverseRequestOpts.Country rr = '''' then None else Some [ReverseRequestOpts.Country rr]) \<and>
          v ''language'' = (if ReverseRequestOpts.Language rr = '''' then None else Some [ReverseRequestOpts.Language rr]) \<and>
          v ''worldview'' = (if ReverseRequestOpts.Worldview rr = '''' then None else Some [ReverseRequestOpts.Worldview rr]) \<and>
          v ''permanent'' = (if ReverseRequestOpts.Permanent rr then Some [''true''] else None))"
proof -
  let ?v = "Set_value (Set_value (reflectValue Map.empty (ReverseRequestOpts_fields rr)) ''longitude'' (FormatFloat D (Location.Longitude l))) ''latitude'' (FormatFloat D (Location.Latitude l))"
  have call: "\<forall>g w. Reverse D g (Some l) (Some rr) w =
      (case QueryBase D (base g) ''search/geocode/v6/reverse'' ?v w of
         ((fc, err), w') \<Rightarrow> (Return (Some \<lparr> ReverseResponse.FeatureCollection = fc \<rparr>) err, w'))"
    by (simp add: Reverse_call)
  have parse: "ParseQuery (Encode ?v) = (?v, None)"
    by (intro ParseQuery_Encode_built built_Set_value built_reflectValue)
  have keys:
    "?v ''longitude'' = Some [FormatFloat D (Location.Longitude l)]"
    "?v ''latitude'' = Some [FormatFloat D (Location.Latitude l)]"
    "?v ''types'' = (if ReverseRequestOpts.Types rr = '''' then None else Some [ReverseRequestOpts.Types rr])"
    "?v ''limit'' = (if ReverseRequestOpts.Limit rr = 0 then None else Some [FormatUint (unat (ReverseRequestOpts.Limit rr))])"
    "?v ''country'' = (if ReverseRequestOpts.Country rr = '''' then None else Some [ReverseRequestOpts.Country rr])"
    "?v ''language'' = (if ReverseRequestOpts.Language rr = '''' then None else Some [ReverseRequestOpts.Language rr])"
    "?v ''worldview'' = (if ReverseRequestOpts.Worldview rr = '''' then None else Some [ReverseRequestOpts.Worldview rr])"
    "?v ''permanent'' = (if ReverseRequestOpts.Permanent rr then Some [''true''] else None)"
    by (simp_all add: Set_value_def reflectValue_lookup ReverseRequestOpts_emitted)
  show ?thesis
    by (intro exI [of _ ?v] conjI call parse keys)
qed

lemma Batch_sends:
  "(\<exists>v. (\<forall>(D :: ('f, 'feat, 'w) deps) g queries w. Batch D g queries (Some br) w =
         (case QueryWithBodyBase D (base g) ''search/geocode/v6/batch'' v queries w of
            ((entries, err), w') \<Rightarrow> (Return (Some \<lparr> BatchResponse.Batch = entries \<rparr>) err, w'))) \<and>
          ParseQuery (Encode v) = (v, None) \<and>
          v ''permanent'' = (if BatchRequestOpts.Permanent br then Some [''true''] else None))"
proof -
  let ?v = "reflectValue Map.empty (BatchRequestOpts_fields br)"
  have call: "\<forall>(D :: ('f, 'feat, 'w) deps) g queries w. Batch D g queries (Some br) w =
      (case QueryWithBodyBase D (base g) ''search/geocode/v6/batch'' ?v queries w of
         ((entries, err), w') \<Rightarrow> (Return (Some \<lparr> BatchResponse.Batch = entries \<rparr>) err, w'))"
    by (simp add: Batch_call)
  have parse: "ParseQuery (Encode ?v) = (?v, None)"
    by (intro ParseQuery_Encode_built built_Set_value built_reflectValue)
  have keys:
    "?v ''permanent'' = (if BatchRequestOpts.Permanent br then Some [''true''] else None)"
    by (simp_all add: Set_value_def reflectValue_lookup BatchRequestOpts_emitted)
  show ?thesis
    by (intro exI [of _ ?v] conjI call parse keys)
qed

text \<open>The query string of a forward request with \<open>Limit = 1\<close>, as an example.\<close>

lemma Forward_query_string_example:
  "\<exists>v. Forward_values ''2 lincoln memorial circle nw''
          (Some (zero_ForwardRequestOpts \<lparr> ForwardRequestOpts.Limit := 1 \<rparr>)) = Inr v \<and>
        Encode v = ''limit=1&q=2+lincoln+memorial+circle+nw''"
  by (simp add: Forward_values_eq Set_value_def ForwardRequestOpts_fields_def
      zero_ForwardRequestOpts_def Add_def Encode_def shouldEscape_def upperhex_def digit_def)

subsection \<open>The claims\<close>

text \<open>
  C1. Constructing the client with an empty (or missing: the environment gives the empty
  string) token fails with the missing-token error and leaves the world as it was, so no
  network call has been made; with any other token the construction succeeds, again
  without a network call. The example program's \<open>main\<close> stops at the empty token before
  it constructs anything.
\<close>

theorem NewBase_token:
  "(tok = '''' \<longrightarrow> NewBase tok w = (Inl ErrorMissingToken, w)) \<and>
   (tok \<noteq> '''' \<longrightarrow> (\<exists>b. NewBase tok w = (Inr b, w))) \<and>
   main_start '''' w = (Fatal ''MAPBOX_TOKEN environment variable is required'', w)"
  by (simp add: NewBase_def main_start_def)

theorem NewBase_token_witness:
  "NewBase '''' ([] :: mock_world) = (Inl ErrorMissingToken, []) \<and>
   (\<exists>b. NewBase ''pk.test'' ([] :: mock_world) = (Inr b, []))"
  using NewBase_token [of "''''" "[] :: mock_world"]
        NewBase_token [of "''pk.test''" "[] :: mock_world"]
  by simp

text \<open>
  C2, as stated: \<open>ForwardWithTypes(place, ts, req)\<close> behaves as \<open>Forward(place, req')\<close>,
  where \<open>req'\<close> is \<open>req\<close> with \<open>Types\<close> set to the comma-joined names of \<open>ts\<close>. It fails for
  the empty \<open>ts\<close>: the method writes \<open>Types\<close> only when \<open>len(types) > 0\<close>, so a caller's
  \<open>Types = "address"\<close> is sent, while the comma-joined names of the empty slice are the
  empty string and \<open>Forward\<close> would send no \<open>types\<close> parameter.
\<close>

theorem ForwardWithTypes_empty_counterexample:
  "fst (ForwardWithTypes (mock_deps features_none entries_all) g0 ''Central Park'' []
         (Some (zero_ForwardRequestOpts \<lparr> ForwardRequestOpts.Types := ''address'' \<rparr>)) [])
     \<noteq> Forward (mock_deps features_none entries_all) g0 ''Central Park''
         (Some (zero_ForwardRequestOpts \<lparr> ForwardRequestOpts.Types := ''address'' \<rparr>
                  \<lparr> ForwardRequestOpts.Types := Join [] '','' \<rparr>)) [] \<and>
   snd (fst (ForwardWithTypes (mock_deps features_none entries_all) g0 ''Central Park'' []
         (Some (zero_ForwardRequestOpts \<lparr> ForwardRequestOpts.Types := ''address'' \<rparr>)) []))
     = [(''search/geocode/v6/forward'',
         [(''q'', [''Central Park'']), (''types'', [''address''])])] \<and>
   snd (Forward (mock_deps features_none entries_all) g0 ''Central Park''
         (Some (zero_ForwardRequestOpts \<lparr> ForwardRequestOpts.Types := ''address'' \<rparr>
                  \<lparr> ForwardRequestOpts.Types := Join [] '','' \<rparr>)) [])
     = [(''search/geocode/v6/forward'', [(''q'', [''Central Park''])])]"
  by (simp add: ForwardWithTypes_def Forward_def Forward_values_eq Set_value_def
      reflectValue_lookup ForwardRequestOpts_fields_def zero_ForwardRequestOpts_def
      mock_deps_def logged_def param_names_def apiName_def apiVersion_def features_none_def
      g0_def NewGeocode_def Add_lookup)

text \<open>
  C2, amended. For a non-empty \<open>ts\<close>, \<open>ForwardWithTypes(place, ts, req)\<close> makes the call
  \<open>Forward(place, req')\<close>, where \<open>req'\<close> is \<open>req\<close> (the zero struct when \<open>req\<close> is nil) with
  \<open>Types\<close> set to the comma-joined names of \<open>ts\<close>; for the empty \<open>ts\<close> it leaves \<open>Types\<close> as
  the caller set it and makes the call \<open>Forward(place, req)\<close>. Likewise
  \<open>ReverseWithTypes\<close> and \<open>Reverse\<close>. \<open>[Address, Place]\<close> joins to \<open>address,place\<close>.
\<close>

theorem WithTypes_as_manual:
  "fst (ForwardWithTypes D g place ts freq w)
     = Forward D g place
         (Some (if ts = []
                then (case freq of None \<Rightarrow> zero_ForwardRequestOpts | Some r \<Rightarrow> r)
                else (case freq of None \<Rightarrow> zero_ForwardRequestOpts | Some r \<Rightarrow> r)
                       \<lparr> ForwardRequestOpts.Types := Join ts '','' \<rparr>)) w \<and>
   fst (ReverseWithTypes D g loc ts rreq w)
     = Reverse D g loc
         (Some (if ts = []
                then (case rreq of None \<Rightarrow> zero_ReverseRequestOpts | Some r \<Rightarrow> r)
                else (case rreq of None \<Rightarrow> zero_ReverseRequestOpts | Some r \<Rightarrow> r)
                       \<lparr> ReverseRequestOpts.Types := Join ts '','' \<rparr>)) w \<and>
   typesToString [Address, Place] = ''address,place''"
proof -
  have "typesToString [Address, Place] = ''address,place''"
    unfolding typesToString_Join by (rule Join_types_example)
  then show ?thesis
    by (simp add: ForwardWithTypes_def ReverseWithTypes_def typesToString_Join Let_def)
qed

text \<open>
  C3. For each of the four option structs and each of its fields, the values that the
  operation hands to the HTTP layer have no key for the field when the field is left at
  its zero value (the empty string, false, 0), and hold the field's value under its key
  otherwise; the keys the operations set themselves (\<open>q\<close>, \<open>longitude\<close>, \<open>latitude\<close>)
  are the name of no field. The query string of these values (\<open>Encode\<close>), parsed back
  (\<open>ParseQuery\<close>), gives the same values and no error, so a key that the values do not
  have is a key that the parsed query string does not have.
\<close>

theorem omitted_fields_absent:
  "(\<exists>v. (\<forall>(D :: ('f, 'feat, 'w) deps) g w. Forward D g place (Some fr) w =
       (case QueryBase D (base g) ''search/geocode/v6/forward'' v w of
          ((fc, err), w') \<Rightarrow> (Return (Some \<lparr> ForwardResponse.FeatureCollection = fc \<rparr>) err, w'))) \<and>
        ParseQuery (Encode v) = (v, None) \<and>
        v ''q'' = Some [place] \<and>
        v ''country'' = (if ForwardRequestOpts.Country fr = '''' then None else Some [ForwardRequestOpts.Country fr]) \<and>
        v ''proximity'' = (if ForwardRequestOpts.Proximity fr = '''' then None else Some [ForwardRequestOpts.Proximity fr]) \<and>
        v ''types'' = (if ForwardRequestOpts.Types fr = '''' then None else Some [ForwardRequestOpts.Types fr]) \<and>
        v ''autocomplete'' = (if ForwardRequestOpts.Autocomplete fr then Some [''true''] else None) \<and>
        v ''bbox'' = (if ForwardRequestOpts.BBox fr = '''' then None else Some [ForwardRequestOpts.BBox fr]) \<and>
        v ''limit'' = (if ForwardRequestOpts.Limit fr = 0 then None else Some [FormatUint (unat (ForwardRequestOpts.Limit fr))]) \<and>
        v ''language'' = (if ForwardRequestOpts.Language fr = '''' then None else Some [ForwardRequestOpts.Language fr]) \<and>
        v ''worldview'' = (if ForwardRequestOpts.Worldview fr = '''' then None else Some [ForwardRequestOpts.Worldview fr]) \<and>
        v ''format'' = (if ForwardRequestOpts.Format fr = '''' then None else Some [ForwardRequestOpts.Format fr]) \<and>
        v ''permanent'' = (if ForwardRequestOpts.Permanent fr then Some [''true''] else None)) \<and>
   (\<exists>v. (\<forall>(D :: ('f, 'feat, 'w) deps) g w. ForwardStructured D g (Some sr) w =
       (case QueryBase D (base g) ''search/geocode/v6/forward'' v w of
          ((fc, err), w') \<Rightarrow> (Return (Some \<lparr> ForwardResponse.FeatureCollection = fc \<rparr>) err, w'))) \<and>
        ParseQuery (Encode v) = (v, None) \<and>
        v ''address_line1'' = (if StructuredInputOpts.AddressLine1 sr = '''' then None else Some [StructuredInputOpts.AddressLine1 sr]) \<and>
        v ''address_number'' = (if StructuredInputOpts.AddressNumber sr = '''' then None else Some [StructuredInputOpts.AddressNumber sr]) \<and>
        v ''street'' = (if StructuredInputOpts.Street sr = '''' then None else Some [StructuredInputOpts.Street sr]) \<and>
        v ''block'' = (if StructuredInputOpts.Block sr = '''' then None else Some [StructuredInputOpts.Block sr]) \<and>
        v ''place'' = (if StructuredInputOpts.Place sr = '''' then None else Some [StructuredInputOpts.Place sr]) \<and>
        v ''region'' = (if StructuredInputOpts.Region sr = '''' then None else Some [StructuredInputOpts.Region sr]) \<and>
        v ''postcode'' = (if StructuredInputOpts.Postcode sr = '''' then None else Some [StructuredInputOpts.Postcode sr]) \<and>
        v ''locality'' = (if StructuredInputOpts.Locality sr = '''' then None else Some [StructuredInputOpts.Locality sr]) \<and>
        v ''neighborhood'' = (if StructuredInputOpts.Neighborhood sr = '''' then None else Some [StructuredInputOpts.Neighborhood sr]) \<and>
        v ''country'' = (if StructuredInputOpts.Country sr = '''' then None else Some [StructuredInputOpts.Country sr]) \<and>
        v ''autocomplete'' = (if StructuredInputOpts.Autocomplete sr then Some [''true''] else None) \<and>
        v ''bbox'' = (if StructuredInputOpts.BBox sr = '''' then None else Some [StructuredInputOpts.BBox sr]) \<and>
        v ''format'' = (if StructuredInputOpts.Format sr = '''' then None else Some [StructuredInputOpts.Format sr]) \<and>
        v ''language'' = (if StructuredInputOpts.Language sr = '''' then None else Some [StructuredInputOpts.Language sr]) \<and>
        v ''limit'' = (if StructuredInputOpts.Limit sr = 0 then None else Some [FormatUint (unat (StructuredInputOpts.Limit sr))]) \<and>
        v ''proximity'' = (if StructuredInputOpts.Proximity sr = '''' then None else Some [StructuredInputOpts.Proximity sr]) \<and>
        v ''types'' = (if StructuredInputOpts.Types sr = '''' then None else Some [StructuredInputOpts.Types sr]) \<and>
        v ''worldview'' = (if StructuredInputOpts.Worldview sr = '''' then None else Some [StructuredInputOpts.Worldview sr]) \<and>
        v ''permanent'' = (if StructuredInputOpts.Permanent sr then Some [''true''] else None)) \<and>
   (\<exists>v. (\<forall>g w. Reverse D g (Some l) (Some rr) w =
       (case QueryBase D (base g) ''search/geocode/v6/reverse'' v w of
          ((fc, err), w') \<Rightarrow> (Return (Some \<lparr> ReverseResponse.FeatureCollection = fc \<rparr>) err, w'))) \<and>
        ParseQuery (Encode v) = (v, None) \<and>
        v ''longitude'' = Some [FormatFloat D (Location.Longitude l)] \<and>
        v ''latitude'' = Some [FormatFloat D (Location.Latitude l)] \<and>
        v ''types'' = (if ReverseRequestOpts.Types rr = '''' then None else Some [ReverseRequestOpts.Types rr]) \<and>
        v ''limit'' = (if ReverseRequestOpts.Limit rr = 0 then None else Some [FormatUint (unat (ReverseRequestOpts.Limit rr))]) \<and>
        v ''country'' = (if ReverseRequestOpts.Country rr = '''' then None else Some [ReverseRequestOpts.Country rr]) \<and>
        v ''language'' = (if ReverseRequestOpts.Language rr = '''' then None else Some [ReverseRequestOpts.Language rr]) \<and>
        v ''worldview'' = (if ReverseRequestOpts.Worldview rr = '''' then None else Some [ReverseRequestOpts.Worldview rr]) \<and>
        v ''permanent'' = (if ReverseRequestOpts.Permanent rr then Some [''true''] else None)) \<and>
   (\<exists>v. (\<forall>(D :: ('f, 'feat, 'w) deps) g queries w. Batch D g queries (Some br) w =
       (case QueryWithBodyBase D (base g) ''search/geocode/v6/batch'' v queries w of
          ((entries, err), w') \<Rightarrow> (Return (Some \<lparr> BatchResponse.Batch = entries \<rparr>) err, w'))) \<and>
        ParseQuery (Encode v) = (v, None) \<and>
        v ''permanent'' = (if BatchRequestOpts.Permanent br then Some [''true''] else None))"
  by (intro conjI Forward_sends ForwardStructured_sends Reverse_sends Batch_sends)

theorem omitted_fields_absent_witness:
  "\<exists>v. (\<forall>(D :: ('f, 'feat, 'w) deps) g w.
          Forward D g ''2 lincoln memorial circle nw''
            (Some (zero_ForwardRequestOpts \<lparr> ForwardRequestOpts.Limit := 1 \<rparr>)) w =
          (case QueryBase D (base g) ''search/geocode/v6/forward'' v w of
             ((fc, err), w') \<Rightarrow>
               (Return (Some \<lparr> ForwardResponse.FeatureCollection = fc \<rparr>) err, w'))) \<and>
        ParseQuery (Encode v) = (v, None) \<and>
        v ''q'' = Some [''2 lincoln memorial circle nw''] \<and>
        v ''country'' = None \<and> v ''proximity'' = None \<and> v ''types'' = None \<and>
        v ''autocomplete'' = None \<and> v ''bbox'' = None \<and> v ''limit'' = Some [''1''] \<and>
        v ''language'' = None \<and> v ''worldview'' = None \<and> v ''format'' = None \<and>
        v ''permanent'' = None"
  using omitted_fields_absent [where place = "''2 lincoln memorial circle nw''"
      and fr = "zero_ForwardRequestOpts \<lparr> ForwardRequestOpts.Limit := 1 \<rparr>", THEN conjunct1]
  by (simp add: zero_ForwardRequestOpts_def digit_def)




text \<open>
  C5, as stated: a successful \<open>Batch\<close> of 3 queries returns exactly 3 entries, in the order
  of the queries, and there are no partial results. \<open>Batch\<close> returns the list that the
  HTTP layer decoded and does not compare it with the queries: with a layer that decodes
  two entries and reports no error, the call succeeds with two entries for three queries;
  with a layer that decodes one entry and reports an error, the call returns that one
  entry together with the error.
\<close>

theorem Batch_short_reply_counterexample:
  "length three_queries = 3 \<and>
   fst (Batch (mock_deps features_none entries_two) g0 three_queries None [])
     = Return (Some \<lparr> BatchResponse.Batch =
                 [echo (query_text ''New York City''), echo (query_text ''Boston'')] \<rparr>) None \<and>
   fst (Batch (mock_deps features_none entries_failing) g0 three_queries None [])
     = Return (Some \<lparr> BatchResponse.Batch = [echo (query_text ''New York City'')] \<rparr>)
         (Some ErrorAPILimitExceeded)"
  by (simp add: Batch_def Batch_values_eq mock_deps_def entries_two_def entries_failing_def
      three_queries_def)

text \<open>
  C5, amended. With an HTTP layer that answers in order (the list it decodes for a batch
  request that it reports successful has one entry per query of the body, each answering
  the query at its position), a successful \<open>Batch\<close> of 3 queries returns exactly 3 entries,
  the entry at each position answering the query at that position.
\<close>

theorem Batch_entries_in_order:
  assumes "answers_in_order answers D"
    and "length queries = 3"
    and "Batch D g queries req w = (Return (Some resp) None, w')"
  shows "length (BatchResponse.Batch resp) = 3 \<and>
         list_all2 answers queries (BatchResponse.Batch resp)"
proof -
  obtain v where v: "Batch_values req = Inr v"
    by (simp add: Batch_values_eq)
  obtain entries err w'' where
    q: "QueryWithBodyBase D (base g) (apiName @ ''/'' @ apiVersion @ ''/batch'') v queries w
          = ((entries, err), w'')"
    by (metis prod.exhaust)
  from assms(3) v q have resp: "resp = \<lparr> BatchResponse.Batch = entries \<rparr>"
    and "err = None"
    by (simp_all add: Batch_def)
  with q have "QueryWithBodyBase D (base g) (apiName @ ''/'' @ apiVersion @ ''/batch'') v
      queries w = ((entries, None), w'')"
    by simp
  with assms(1) have "list_all2 answers queries entries"
    unfolding answers_in_order_def by blast
  with resp have "list_all2 answers queries (BatchResponse.Batch resp)"
    by simp
  with assms(2) show ?thesis by (auto dest: list_all2_lengthD)
qed

theorem Batch_entries_in_order_witness:
  "answers_in_order echo_answers (mock_deps features_none entries_all) \<and>
   length three_queries = 3 \<and>
   Batch (mock_deps features_none entries_all) g0 three_queries None []
     = (Return (Some \<lparr> BatchResponse.Batch = map echo three_queries \<rparr>) None,
        [(''search/geocode/v6/batch'', [])]) \<and>
   length (BatchResponse.Batch \<lparr> BatchResponse.Batch = map echo three_queries \<rparr>) = 3 \<and>
   list_all2 echo_answers three_queries
     (BatchResponse.Batch \<lparr> BatchResponse.Batch = map echo three_queries \<rparr>)"
proof -
  have h1: "answers_in_order echo_answers (mock_deps features_none entries_all)"
    by (auto simp: answers_in_order_def mock_deps_def entries_all_def echo_answers_def
        list_all2_map2 intro: list_all2_refl)
  have h2: "length three_queries = 3"
    by (simp add: three_queries_def)
  have h3: "Batch (mock_deps features_none entries_all) g0 three_queries None []
     = (Return (Some \<lparr> BatchResponse.Batch = map echo three_queries \<rparr>) None,
        [(''search/geocode/v6/batch'', [])])"
    by (simp add: Batch_def Batch_values_eq mock_deps_def entries_all_def
        BatchRequestOpts_fields_def zero_BatchRequestOpts_def logged_def param_names_def
        apiName_def apiVersion_def)
  from Batch_entries_in_order [OF h1 h2 h3] h1 h2 h3 show ?thesis by simp
qed

text \<open>
  C6. For every list of queries, whatever its length, \<open>Batch\<close> makes exactly one call of
  the HTTP layer, with the path of the batch endpoint, the values of the options and the
  list as the body, and returns what the layer decoded and the layer's error: it has no
  check of the number of queries and no error of its own.
\<close>

theorem Batch_no_local_validation:
  "Batch D g queries req w =
     (case QueryWithBodyBase D (base g) ''search/geocode/v6/batch''
             (if (case req of None \<Rightarrow> False | Some r \<Rightarrow> BatchRequestOpts.Permanent r)
              then [''permanent'' \<mapsto> [''true'']] else Map.empty)
             queries w of
        ((entries, err), w') \<Rightarrow> (Return (Some \<lparr> BatchResponse.Batch = entries \<rparr>) err, w'))"
proof -
  have "reflectValue Map.empty (BatchRequestOpts_fields
          (case req of None \<Rightarrow> zero_BatchRequestOpts | Some r \<Rightarrow> r))
        = (if (case req of None \<Rightarrow> False | Some r \<Rightarrow> BatchRequestOpts.Permanent r)
           then [''permanent'' \<mapsto> [''true'']] else Map.empty)"
    by (cases req) (simp_all add: BatchRequestOpts_fields_def zero_BatchRequestOpts_def Add_def)
  then show ?thesis
    by (simp add: Batch_def Batch_values_eq apiName_def apiVersion_def)
qed

text \<open>
  C7, as stated: with a mock HTTP layer, a \<open>Forward\<close> with \<open>Limit = 1\<close> that succeeds
  returns at most one feature. \<open>Forward\<close> sends \<open>limit=1\<close> and returns the collection that
  the HTTP layer decoded as it is: with a layer that decodes two features whatever the
  limit, the call succeeds with two features.
\<close>

theorem Forward_limit_counterexample:
  "ForwardRequestOpts.Limit (zero_ForwardRequestOpts \<lparr> ForwardRequestOpts.Limit := 1 \<rparr>) = 1 \<and>
   Forward (mock_deps features_two entries_all) g0 ''2 lincoln memorial circle nw''
       (Some (zero_ForwardRequestOpts \<lparr> ForwardRequestOpts.Limit := 1 \<rparr>)) []
     = (Return (Some \<lparr> ForwardResponse.FeatureCollection =
                  Some \<lparr> Type = ''FeatureCollection'', Features = [''first'', ''second''] \<rparr> \<rparr>)
          None,
        [(''search/geocode/v6/forward'',
          [(''q'', [''2 lincoln memorial circle nw'']), (''limit'', [''1''])])])"
  by (simp add: Forward_def Forward_values_eq Set_value_def ForwardRequestOpts_fields_def
      zero_ForwardRequestOpts_def mock_deps_def logged_def param_names_def apiName_def
      apiVersion_def features_two_def g0_def NewGeocode_def Add_lookup digit_def)

text \<open>
  C7, amended. With an HTTP layer that honours the limit (a collection it decodes for a
  request carrying \<open>limit=n\<close> has at most \<open>n\<close> features), a \<open>Forward\<close> with \<open>Limit = 1\<close> that
  succeeds returns a collection with at most one feature.
\<close>

theorem Forward_limit_one:
  assumes "honours_limit D"
    and "ForwardRequestOpts.Limit r = 1"
    and "Forward D g place (Some r) w = (Return (Some resp) None, w')"
    and "ForwardResponse.FeatureCollection resp = Some fc"
  shows "length (Features fc) \<le> 1"
proof -
  obtain v where v: "Forward_values place (Some r) = Inr v"
    and lim: "v ''limit'' = Some [FormatUint 1]"
    using assms(2) by (simp add: Forward_values_eq Set_value_def reflectValue_lookup Forward_limit)
  obtain fc' err w'' where
    q: "QueryBase D (base g) (apiName @ ''/'' @ apiVersion @ ''/forward'') v w = ((fc', err), w'')"
    by (metis prod.exhaust)
  from assms(3) v q have "resp = \<lparr> ForwardResponse.FeatureCollection = fc' \<rparr>"
    by (simp add: Forward_def)
  with assms(4) have "fc' = Some fc" by simp
  with q lim assms(1) show ?thesis
    unfolding honours_limit_def by blast
qed

theorem Forward_limit_one_witness:
  "honours_limit (mock_deps features_limited entries_all) \<and>
   ForwardRequestOpts.Limit (zero_ForwardRequestOpts \<lparr> ForwardRequestOpts.Limit := 1 \<rparr>) = 1 \<and>
   Forward (mock_deps features_limited entries_all) g0 ''2 lincoln memorial circle nw''
       (Some (zero_ForwardRequestOpts \<lparr> ForwardRequestOpts.Limit := 1 \<rparr>)) []
     = (Return (Some \<lparr> ForwardResponse.FeatureCollection =
                  Some \<lparr> Type = ''FeatureCollection'', Features = [''first''] \<rparr> \<rparr>) None,
        [(''search/geocode/v6/forward'',
          [(''q'', [''2 lincoln memorial circle nw'']), (''limit'', [''1''])])]) \<and>
   length (Features \<lparr> Type = ''FeatureCollection'', Features = [''first''] \<rparr>) \<le> 1"
proof -
  have h1: "honours_limit (mock_deps features_limited entries_all)"
  proof -
    have "length (if [FormatUint n] = [''1''] then [''first''] else []) \<le> n" for n
      by (cases "n = 0") (simp_all add: digit_def)
    then show ?thesis
      by (auto simp: honours_limit_def mock_deps_def features_limited_def)
  qed
  have h2: "ForwardRequestOpts.Limit
      (zero_ForwardRequestOpts \<lparr> ForwardRequestOpts.Limit := 1 \<rparr>) = 1"
    by simp
  have h3: "Forward (mock_deps features_limited entries_all) g0 ''2 lincoln memorial circle nw''
       (Some (zero_ForwardRequestOpts \<lparr> ForwardRequestOpts.Limit := 1 \<rparr>)) []
     = (Return (Some \<lparr> ForwardResponse.FeatureCollection =
                  Some \<lparr> Type = ''FeatureCollection'', Features = [''first''] \<rparr> \<rparr>) None,
        [(''search/geocode/v6/forward'',
          [(''q'', [''2 lincoln memorial circle nw'']), (''limit'', [''1''])])])"
    by (simp add: Forward_def Forward_values_eq Set_value_def ForwardRequestOpts_fields_def
        zero_ForwardRequestOpts_def mock_deps_def logged_def param_names_def apiName_def
        apiVersion_def features_limited_def g0_def NewGeocode_def Add_lookup digit_def)
  have h4: "ForwardResponse.FeatureCollection
      \<lparr> ForwardResponse.FeatureCollection =
          Some \<lparr> Type = ''FeatureCollection'', Features = [''first''] \<rparr> \<rparr>
      = Some \<lparr> Type = ''FeatureCollection'', Features = [''first''] \<rparr>"
    by simp
  from Forward_limit_one [OF h1 h2 h3 h4] h1 h2 h3 show ?thesis by simp
qed

text \<open>
  C8. The boolean options. The values that each operation hands to the HTTP layer hold
  \<open>true\<close> under \<open>autocomplete\<close> (and under \<open>permanent\<close>) when the field is true, and have
  no such key when it is false; the query string of these values parses back to them. So
  the parameter is sent exactly when the field is true, an explicit false is sent as an
  unset field is, and \<open>autocomplete=false\<close> is never sent.
\<close>

theorem bool_option_sent_iff_true:
  "(\<exists>v. (\<forall>(D :: ('f, 'feat, 'w) deps) g w. Forward D g place (Some fr) w =
       (case QueryBase D (base g) ''search/geocode/v6/forward'' v w of
          ((fc, err), w') \<Rightarrow> (Return (Some \<lparr> ForwardResponse.FeatureCollection = fc \<rparr>) err, w'))) \<and>
        ParseQuery (Encode v) = (v, None) \<and>
        v ''autocomplete'' = (if ForwardRequestOpts.Autocomplete fr then Some [''true''] else None) \<and>
        v ''permanent'' = (if ForwardRequestOpts.Permanent fr then Some [''true''] else None)) \<and>
   (\<exists>v. (\<forall>(D :: ('f, 'feat, 'w) deps) g w. ForwardStructured D g (Some sr) w =
       (case QueryBase D (base g) ''search/geocode/v6/forward'' v w of
          ((fc, err), w') \<Rightarrow> (Return (Some \<lparr> ForwardResponse.FeatureCollection = fc \<rparr>) err, w'))) \<and>
        ParseQuery (Encode v) = (v, None) \<and>
        v ''autocomplete'' = (if StructuredInputOpts.Autocomplete sr then Some [''true''] else None) \<and>
        v ''permanent'' = (if StructuredInputOpts.Permanent sr then Some [''true''] else None)) \<and>
   (\<exists>v. (\<forall>g w. Reverse D g (Some l) (Some rr) w =
       (case QueryBase D (base g) ''search/geocode/v6/reverse'' v w of
          ((fc, err), w') \<Rightarrow> (Return (Some \<lparr> ReverseResponse.FeatureCollection = fc \<rparr>) err, w'))) \<and>
        ParseQuery (Encode v) = (v, None) \<and>
        v ''permanent'' = (if ReverseRequestOpts.Permanent rr then Some [''true''] else None)) \<and>
   (\<exists>v. (\<forall>(D :: ('f, 'feat, 'w) deps) g queries w. Batch D g queries (Some br) w =
       (case QueryWithBodyBase D (base g) ''search/geocode/v6/batch'' v queries w of
          ((entries, err), w') \<Rightarrow> (Return (Some \<lparr> BatchResponse.Batch = entries \<rparr>) err, w'))) \<and>
        ParseQuery (Encode v) = (v, None) \<and>
        v ''permanent'' = (if BatchRequestOpts.Permanent br then Some [''true''] else None))"
proof -
  have 1: "(\<exists>v. (\<forall>(D :: ('f, 'feat, 'w) deps) g w. Forward D g place (Some fr) w =
         (case QueryBase D (base g) ''search/geocode/v6/forward'' v w of
            ((fc, err), w') \<Rightarrow> (Return (Some \<lparr> ForwardResponse.FeatureCollection = fc \<rparr>) err, w'))) \<and>
          ParseQuery (Encode v) = (v, None) \<and>
          v ''autocomplete'' = (if ForwardRequestOpts.Autocomplete fr then Some [''true''] else None) \<and>
          v ''permanent'' = (if ForwardRequestOpts.Permanent fr then Some [''true''] else None))"
    using Forward_sends [of place fr] by (elim exE conjE, intro exI conjI) assumption+
  have 2: "(\<exists>v. (\<forall>(D :: ('f, 'feat, 'w) deps) g w. ForwardStructured D g (Some sr) w =
         (case QueryBase D (base g) ''search/geocode/v6/forward'' v w of
            ((fc, err), w') \<Rightarrow> (Return (Some \<lparr> ForwardResponse.FeatureCollection = fc \<rparr>) err, w'))) \<and>
          ParseQuery (Encode v) = (v, None) \<and>
          v ''autocomplete'' = (if StructuredInputOpts.Autocomplete sr then Some [''true''] else None) \<and>
          v ''permanent'' = (if StructuredInputOpts.Permanent sr then Some [''true''] else None))"
    using ForwardStructured_sends [of sr] by (elim exE conjE, intro exI conjI) assumption+
  have 3: "(\<exists>v. (\<forall>g w. Reverse D g (Some l) (Some rr) w =
         (case QueryBase D (base g) ''search/geocode/v6/reverse'' v w of
            ((fc, err), w') \<Rightarrow> (Return (Some \<lparr> ReverseResponse.FeatureCollection = fc \<rparr>) err, w'))) \<and>
          ParseQuery (Encode v) = (v, None) \<and>
          v ''permanent'' = (if ReverseRequestOpts.Permanent rr then Some [''true''] else None))"
    using Reverse_sends [of D l rr] by (elim exE conjE, intro exI conjI) assumption+
  have 4: "(\<exists>v. (\<forall>(D :: ('f, 'feat, 'w) deps) g queries w. Batch D g queries (Some br) w =
         (case QueryWithBodyBase D (base g) ''search/geocode/v6/batch'' v queries w of
            ((entries, err), w') \<Rightarrow> (Return (Some \<lparr> BatchResponse.Batch = entries \<rparr>) err, w'))) \<and>
          ParseQuery (Encode v) = (v, None) \<and>
          v ''permanent'' = (if BatchRequestOpts.Permanent br then Some [''true''] else None))"
    using Batch_sends [of br] by (elim exE conjE, intro exI conjI) assumption+
  from 1 2 3 4 show ?thesis by (intro conjI)
qed

text \<open>
  C9. For a slice \<open>p\<close> whose length is not 2, \<open>ForwardWithProximity(place, p, req)\<close> is the
  call \<open>Forward(place, req)\<close>: the same request, the same response and error (none of its
  own for the wrong length), and the caller's struct is left as it was. Likewise
  \<open>ForwardWithBBox\<close> for a bounding box whose length is not 4.
\<close>

theorem wrong_length_ignored:
  "(length p \<noteq> 2 \<longrightarrow>
      ForwardWithProximity D g place p req w = (Forward D g place req w, req)) \<and>
   (length bbox \<noteq> 4 \<longrightarrow>
      ForwardWithBBox D g place bbox req w = (Forward D g place req w, req))"
  by (cases req) (simp_all add: ForwardWithProximity_def ForwardWithBBox_def Forward_nil)

theorem wrong_length_ignored_witness:
  "ForwardWithProximity (mock_deps features_none entries_all) g0 ''Starbucks'' [-73]
       (Some (zero_ForwardRequestOpts \<lparr> ForwardRequestOpts.Limit := 1 \<rparr>)) []
     = (Forward (mock_deps features_none entries_all) g0 ''Starbucks''
          (Some (zero_ForwardRequestOpts \<lparr> ForwardRequestOpts.Limit := 1 \<rparr>)) [],
        Some (zero_ForwardRequestOpts \<lparr> ForwardRequestOpts.Limit := 1 \<rparr>)) \<and>
   ForwardWithBBox (mock_deps features_none entries_all) g0 ''Starbucks'' [-74, 40, -73] None []
     = (Forward (mock_deps features_none entries_all) g0 ''Starbucks'' None [], None)"
  using wrong_length_ignored [of "[-73 :: int]" "mock_deps features_none entries_all" g0
      "''Starbucks''" "Some (zero_ForwardRequestOpts \<lparr> ForwardRequestOpts.Limit := 1 \<rparr>)"
      "[]" "[]"]
    wrong_length_ignored [of "[]" "mock_deps features_none entries_all" g0
      "''Starbucks''" None "[]" "[-74, 40, -73 :: int]"]
  by simp

text \<open>
  C10. Each operation that takes an options pointer makes, for the nil pointer, the call
  it makes for a pointer to the zero-valued struct: the same request, response, error and
  world. None of them panics on the nil options pointer (\<open>Reverse\<close> and
  \<open>ReverseWithTypes\<close> given a location that is not nil). The convenience methods write
  into the struct they are given, which a caller who passes nil does not have: the
  statement compares the calls, the first component of what the methods give.
\<close>

theorem nil_options_as_zero:
  "Forward D g place None w = Forward D g place (Some zero_ForwardRequestOpts) w \<and>
   Reverse D g loc None w = Reverse D g loc (Some zero_ReverseRequestOpts) w \<and>
   Batch D g queries None w = Batch D g queries (Some zero_BatchRequestOpts) w \<and>
   fst (ForwardWithTypes D g place ts None w)
     = fst (ForwardWithTypes D g place ts (Some zero_ForwardRequestOpts) w) \<and>
   fst (ForwardWithProximity D g place p None w)
     = fst (ForwardWithProximity D g place p (Some zero_ForwardRequestOpts) w) \<and>
   fst (ForwardWithBBox D g place bbox None w)
     = fst (ForwardWithBBox D g place bbox (Some zero_ForwardRequestOpts) w) \<and>
   fst (ReverseWithTypes D g loc ts None w)
     = fst (ReverseWithTypes D g loc ts (Some zero_ReverseRequestOpts) w) \<and>
   fst (ForwardLegacy D g place None permanent w)
     = fst (ForwardLegacy D g place (Some zero_ForwardRequestOpts) permanent w) \<and>
   fst (Forward D g place None w) \<noteq> Panic \<and>
   fst (Reverse D g (Some l) None w) \<noteq> Panic \<and>
   fst (Batch D g queries None w) \<noteq> Panic \<and>
   fst (fst (ForwardWithTypes D g place ts None w)) \<noteq> Panic \<and>
   fst (fst (ForwardWithProximity D g place p None w)) \<noteq> Panic \<and>
   fst (fst (ForwardWithBBox D g place bbox None w)) \<noteq> Panic \<and>
   fst (fst (ReverseWithTypes D g (Some l) ts None w)) \<noteq> Panic \<and>
   fst (fst (ForwardLegacy D g place None permanent w)) \<noteq> Panic"
  by (simp add: Forward_nil Reverse_nil Batch_nil ForwardWithTypes_def
      ForwardWithProximity_def ForwardWithBBox_def ReverseWithTypes_def ForwardLegacy_def
      Forward_no_panic Reverse_no_panic Batch_no_panic Let_def)

end
